theory Spec2Isabelle
  imports Main "HOL-Library.AList"
begin

section \<open>Enumerations of \<^verbatim>\<open>app/models.py\<close>\<close>

text \<open>
  \<^verbatim>\<open>class ImageFormat(str, Enum)\<close> declares seven members with seven different
  values, so none is an alias of another. \<open>ImageFormat_value\<close> is the member's
  \<^verbatim>\<open>.value\<close>; \<open>ImageFormat_of_value\<close> is the lookup by value \<^verbatim>\<open>ImageFormat(s)\<close>
  that validation of a field typed \<^verbatim>\<open>ImageFormat\<close> performs, with \<open>None\<close> where
  Python raises \<^verbatim>\<open>ValueError\<close>.
\<close>

datatype ImageFormat = JPEG | JPG | PNG | WEBP | BMP | TIFF | GIF

fun ImageFormat_value :: "ImageFormat \<Rightarrow> string" where
  "ImageFormat_value JPEG = ''jpeg''"
| "ImageFormat_value JPG = ''jpg''"
| "ImageFormat_value PNG = ''png''"
| "ImageFormat_value WEBP = ''webp''"
| "ImageFormat_value BMP = ''bmp''"
| "ImageFormat_value TIFF = ''tiff''"
| "ImageFormat_value GIF = ''gif''"

definition ImageFormat_members :: "ImageFormat list" where
  "ImageFormat_members = [JPEG, JPG, PNG, WEBP, BMP, TIFF, GIF]"

definition ImageFormat_of_value :: "string \<Rightarrow> ImageFormat option" where
  "ImageFormat_of_value s = find (\<lambda>m. ImageFormat_value m = s) ImageFormat_members"

datatype ConversionStatus = PENDING | PROCESSING | COMPLETED | FAILED

fun ConversionStatus_value :: "ConversionStatus \<Rightarrow> string" where
  "ConversionStatus_value PENDING = ''pending''"
| "ConversionStatus_value PROCESSING = ''processing''"
| "ConversionStatus_value COMPLETED = ''completed''"
| "ConversionStatus_value FAILED = ''failed''"



section \<open>Values of the standard library\<close>

text \<open>
  A naive \<^verbatim>\<open>datetime\<close> (what \<^verbatim>\<open>datetime.utcnow\<close>, the models' default factory,
  returns) is its calendar fields. A \<^verbatim>\<open>Decimal\<close> is a coefficient and an exponent
  of ten.
\<close>

record datetime =
  year :: nat
  month :: nat
  day :: nat
  hour :: nat
  minute :: nat
  second :: nat
  microsecond :: nat

datatype Decimal = Decimal (coefficient: int) (exponent: int)

section \<open>Persistent models\<close>

text \<open>
  Each \<^verbatim>\<open>table=True\<close> class is a record with the class's fields, in the class's
  order. \<^verbatim>\<open>Optional[T]\<close> is \<open>T option\<close>. The \<^verbatim>\<open>Relationship\<close> attributes are not
  columns: they are the joins over the foreign keys, defined on the store below.

  A \<^verbatim>\<open>table=True\<close> class runs no validation when it is constructed, and the
  \<^verbatim>\<open>ge\<close>, \<^verbatim>\<open>le\<close> and \<^verbatim>\<open>max_length\<close> arguments of its fields put no check on the
  table: an object holds what it is given. So an integer field holds any integer, and
  the status of a job, annotated \<^verbatim>\<open>ConversionStatus\<close> (a subclass of \<^verbatim>\<open>str\<close>, each
  member equal to its value), holds any string: the default is the value of
  \<^verbatim>\<open>ConversionStatus.PENDING\<close>, and nothing rejects another string.
\<close>

record User =
  id :: "int option"
  email :: string
  name :: string
  is_active :: bool
  created_at :: datetime
  updated_at :: datetime

record UploadedImage =
  id :: "int option"
  user_id :: "int option"
  original_filename :: string
  stored_filename :: string
  file_path :: string
  file_size :: int
  mime_type :: string
  original_format :: ImageFormat
  width :: "int option"
  height :: "int option"
  upload_date :: datetime
  is_deleted :: bool

record ConversionJob =
  id :: "int option"
  user_id :: "int option"
  source_image_id :: int
  target_format :: ImageFormat
  status :: string
  quality :: "int option"
  width :: "int option"
  height :: "int option"
  maintain_aspect_ratio :: bool
  created_at :: datetime
  started_at :: "datetime option"
  completed_at :: "datetime option"
  error_message :: "string option"
  processing_time_seconds :: "Decimal option"

record ConvertedImage =
  id :: "int option"
  conversion_job_id :: int
  filename :: string
  file_path :: string
  file_size :: int
  mime_type :: string
  format :: ImageFormat
  width :: int
  height :: int
  quality_used :: "int option"
  created_at :: datetime
  download_count :: int
  last_downloaded_at :: "datetime option"
  expires_at :: "datetime option"
  is_deleted :: bool

section \<open>Field constraints\<close>

text \<open>
  The \<^verbatim>\<open>Field(ge=..., le=..., max_length=...)\<close> arguments of a class, as conditions on
  an object. A \<^verbatim>\<open>table=False\<close> schema checks them when it is constructed and raises
  a validation error otherwise; a \<^verbatim>\<open>table=True\<close> class declares them and checks
  nothing. \<open>length\<close> counts the characters of the modelled string. The errors of
  the whole development are one type: \<open>ValidationError\<close> (field validation),
  \<open>IntegrityError\<close> (a column constraint of the database), \<open>AttributeError\<close>
  (Python), and the lifecycle engine's \<open>NotFoundError\<close> and \<open>ConflictError\<close>.
\<close>

datatype error = ValidationError | IntegrityError | AttributeError | NotFoundError | ConflictError

definition in_range :: "int option \<Rightarrow> int option \<Rightarrow> int option \<Rightarrow> bool" where
  \<comment> \<open>\<^verbatim>\<open>Optional[int] = Field(default=None, ge=lo, le=hi)\<close>: \<^verbatim>\<open>None\<close> passes.\<close>
  "in_range lo hi v =
     (case v of
        None \<Rightarrow> True
      | Some n \<Rightarrow>
          (case lo of None \<Rightarrow> True | Some l \<Rightarrow> l \<le> n) \<and>
          (case hi of None \<Rightarrow> True | Some h \<Rightarrow> n \<le> h))"

definition ConversionJob_constraints :: "ConversionJob \<Rightarrow> bool" where
  "ConversionJob_constraints j \<longleftrightarrow>
     in_range (Some 1) (Some 100) (ConversionJob.quality j) \<and>
     in_range (Some 1) None (ConversionJob.width j) \<and>
     in_range (Some 1) None (ConversionJob.height j) \<and>
     (case error_message j of None \<Rightarrow> True | Some m \<Rightarrow> length m \<le> 1000)"

definition ConvertedImage_constraints :: "ConvertedImage \<Rightarrow> bool" where
  "ConvertedImage_constraints c \<longleftrightarrow>
     length (filename c) \<le> 255 \<and>
     length (ConvertedImage.file_path c) \<le> 500 \<and>
     0 \<le> ConvertedImage.file_size c \<and>
     length (ConvertedImage.mime_type c) \<le> 100 \<and>
     0 \<le> ConvertedImage.width c \<and>
     0 \<le> ConvertedImage.height c \<and>
     in_range (Some 1) (Some 100) (quality_used c) \<and>
     0 \<le> download_count c"

definition ConvertedImage_new ::
  "datetime \<Rightarrow> int \<Rightarrow> string \<Rightarrow> string \<Rightarrow> int \<Rightarrow> string \<Rightarrow> ImageFormat \<Rightarrow> int \<Rightarrow> int
     \<Rightarrow> ConvertedImage" where
  \<comment> \<open>The constructor called with the required fields only, at time \<open>now\<close>: every
      other field takes its declared default.\<close>
  "ConvertedImage_new now job fname path sz mime fmt w h =
     \<lparr>ConvertedImage.id = None, conversion_job_id = job, filename = fname,
      ConvertedImage.file_path = path, ConvertedImage.file_size = sz,
      ConvertedImage.mime_type = mime, format = fmt, ConvertedImage.width = w,
      ConvertedImage.height = h, quality_used = None, ConvertedImage.created_at = now,
      download_count = 0, last_downloaded_at = None, expires_at = None,
      ConvertedImage.is_deleted = False\<rparr>"

definition ConversionJob_new :: "datetime \<Rightarrow> int \<Rightarrow> ImageFormat \<Rightarrow> ConversionJob" where
  \<comment> \<open>\<^verbatim>\<open>ConversionJob(source_image_id=src, target_format=fmt)\<close> at time \<open>now\<close>.\<close>
  "ConversionJob_new now src fmt =
     \<lparr>ConversionJob.id = None, ConversionJob.user_id = None, source_image_id = src,
      target_format = fmt, status = ConversionStatus_value PENDING, quality = None,
      ConversionJob.width = None,
      ConversionJob.height = None, maintain_aspect_ratio = True,
      ConversionJob.created_at = now, started_at = None, completed_at = None,
      error_message = None, processing_time_seconds = None\<rparr>"

section \<open>Request schemas\<close>

text \<open>
  \<^verbatim>\<open>ConversionRequest\<close> is a \<^verbatim>\<open>table=False\<close> schema: constructing it validates the
  body. \<open>ConversionRequest_body\<close> is the body as received, with the format still a
  string and \<open>None\<close> for an omitted \<^verbatim>\<open>maintain_aspect_ratio\<close>.
\<close>

record ConversionRequest_body =
  source_image_id :: int
  target_format :: string
  user_id :: "int option"
  quality :: "int option"
  width :: "int option"
  height :: "int option"
  maintain_aspect_ratio :: "bool option"

record ConversionRequest =
  source_image_id :: int
  target_format :: ImageFormat
  user_id :: "int option"
  quality :: "int option"
  width :: "int option"
  height :: "int option"
  maintain_aspect_ratio :: bool

definition ConversionRequest_validate :: "ConversionRequest_body \<Rightarrow> error + ConversionRequest" where
  "ConversionRequest_validate b =
     (case ImageFormat_of_value (ConversionRequest_body.target_format b) of
        None \<Rightarrow> Inl ValidationError
      | Some fmt \<Rightarrow>
          if in_range (Some 1) (Some 100) (ConversionRequest_body.quality b) \<and>
             in_range (Some 1) None (ConversionRequest_body.width b) \<and>
             in_range (Some 1) None (ConversionRequest_body.height b)
          then Inr \<lparr>ConversionRequest.source_image_id = ConversionRequest_body.source_image_id b,
                    ConversionRequest.target_format = fmt,
                    ConversionRequest.user_id = ConversionRequest_body.user_id b,
                    ConversionRequest.quality = ConversionRequest_body.quality b,
                    ConversionRequest.width = ConversionRequest_body.width b,
                    ConversionRequest.height = ConversionRequest_body.height b,
                    ConversionRequest.maintain_aspect_ratio =
                      (case ConversionRequest_body.maintain_aspect_ratio b of
                         None \<Rightarrow> True | Some m \<Rightarrow> m)\<rparr>
          else Inl ValidationError)"

record ConvertedImageCreate =
  conversion_job_id :: int
  filename :: string
  file_path :: string
  file_size :: int
  mime_type :: string
  format :: ImageFormat
  width :: int
  height :: int
  quality_used :: "int option"
  expires_at :: "datetime option"

definition ConvertedImageCreate_constraints :: "ConvertedImageCreate \<Rightarrow> bool" where
  "ConvertedImageCreate_constraints c \<longleftrightarrow>
     length (ConvertedImageCreate.filename c) \<le> 255 \<and>
     length (ConvertedImageCreate.file_path c) \<le> 500 \<and>
     0 \<le> ConvertedImageCreate.file_size c \<and>
     length (ConvertedImageCreate.mime_type c) \<le> 100 \<and>
     0 \<le> ConvertedImageCreate.width c \<and>
     0 \<le> ConvertedImageCreate.height c \<and>
     in_range (Some 1) (Some 100) (ConvertedImageCreate.quality_used c)"

definition ConvertedImageCreate_validate ::
  "ConvertedImageCreate \<Rightarrow> error + ConvertedImageCreate" where
  "ConvertedImageCreate_validate c =
     (if ConvertedImageCreate_constraints c then Inr c else Inl ValidationError)"

section \<open>Response schemas and their \<^verbatim>\<open>dict\<close>\<close>

text \<open>
  \<open>isoformat\<close> is \<^verbatim>\<open>datetime.isoformat()\<close> of a naive datetime:
  \<^verbatim>\<open>YYYY-MM-DDTHH:MM:SS\<close>, followed by \<^verbatim>\<open>.ffffff\<close> when the microsecond is not 0.
\<close>

definition digit_char :: "nat \<Rightarrow> char" where
  "digit_char d = ''0123456789'' ! d"

fun decimal_digits :: "nat \<Rightarrow> string" where
  "decimal_digits n =
     (if n < 10 then [digit_char n] else decimal_digits (n div 10) @ [digit_char (n mod 10)])"

definition zero_pad :: "nat \<Rightarrow> nat \<Rightarrow> string" where
  \<comment> \<open>\<^verbatim>\<open>"%0wd" % n\<close>\<close>
  "zero_pad w n = (let ds = decimal_digits n in replicate (w - length ds) (CHR ''0'') @ ds)"

definition isoformat :: "datetime \<Rightarrow> string" where
  "isoformat t =
     zero_pad 4 (year t) @ ''-'' @ zero_pad 2 (month t) @ ''-'' @ zero_pad 2 (day t) @ ''T'' @
     zero_pad 2 (hour t) @ '':'' @ zero_pad 2 (minute t) @ '':'' @ zero_pad 2 (second t) @
     (if microsecond t = 0 then [] else ''.'' @ zero_pad 6 (microsecond t))"

text \<open>
  The values a field of these schemas holds, and a \<^verbatim>\<open>dict\<close> as an association list
  in insertion order. \<open>truthy\<close> is Python's truth value: \<^verbatim>\<open>None\<close>, \<^verbatim>\<open>False\<close>, 0
  and the empty string are false, a \<^verbatim>\<open>datetime\<close> is always true, and a member of
  a \<^verbatim>\<open>str\<close> enumeration is true when its value is not empty.
\<close>

datatype pyval =
    PNone
  | PBool bool
  | PInt int
  | PStr string
  | PDatetime datetime
  | PDecimal Decimal
  | PImageFormat ImageFormat
  | PConversionStatus ConversionStatus

type_synonym pydict = "(string \<times> pyval) list"

fun truthy :: "pyval \<Rightarrow> bool" where
  "truthy PNone = False"
| "truthy (PBool b) = b"
| "truthy (PInt n) = (n \<noteq> 0)"
| "truthy (PStr s) = (s \<noteq> [])"
| "truthy (PDatetime t) = True"
| "truthy (PDecimal d) = (coefficient d \<noteq> 0)"
| "truthy (PImageFormat f) = (ImageFormat_value f \<noteq> [])"
| "truthy (PConversionStatus c) = (ConversionStatus_value c \<noteq> [])"

definition optional :: "('a \<Rightarrow> pyval) \<Rightarrow> 'a option \<Rightarrow> pyval" where
  "optional f v = (case v of None \<Rightarrow> PNone | Some x \<Rightarrow> f x)"

record ImageMetadata =
  id :: int
  filename :: string
  file_size :: int
  format :: ImageFormat
  width :: "int option"
  height :: "int option"
  upload_date :: datetime
  mime_type :: string

record ConversionJobResponse =
  id :: int
  source_image_id :: int
  target_format :: ImageFormat
  status :: ConversionStatus
  quality :: "int option"
  width :: "int option"
  height :: "int option"
  maintain_aspect_ratio :: bool
  created_at :: datetime
  started_at :: "datetime option"
  completed_at :: "datetime option"
  error_message :: "string option"
  processing_time_seconds :: "Decimal option"

record ConvertedImageResponse =
  id :: int
  filename :: string
  file_size :: int
  format :: ImageFormat
  width :: int
  height :: int
  quality_used :: "int option"
  created_at :: datetime
  download_count :: int
  last_downloaded_at :: "datetime option"
  expires_at :: "datetime option"

text \<open>
  \<^verbatim>\<open>super().dict(**kwargs)\<close>: the fields of the object in declaration order, of which
  the keyword arguments \<^verbatim>\<open>include\<close>, \<^verbatim>\<open>exclude\<close> and \<^verbatim>\<open>exclude_none\<close> keep a part.
\<close>

record dict_kwargs =
  include_keys :: "string list option"
  exclude_keys :: "string list option"
  exclude_none :: bool

definition SQLModel_dict :: "dict_kwargs \<Rightarrow> pydict \<Rightarrow> pydict" where
  "SQLModel_dict kwargs items =
     filter (\<lambda>(k, v).
        (case include_keys kwargs of None \<Rightarrow> True | Some ks \<Rightarrow> k \<in> set ks) \<and>
        (case exclude_keys kwargs of None \<Rightarrow> True | Some ks \<Rightarrow> k \<notin> set ks) \<and>
        \<not> (exclude_none kwargs \<and> v = PNone)) items"

definition ImageMetadata_fields :: "ImageMetadata \<Rightarrow> pydict" where
  "ImageMetadata_fields self =
     [(''id'', PInt (ImageMetadata.id self)),
      (''filename'', PStr (ImageMetadata.filename self)),
      (''file_size'', PInt (ImageMetadata.file_size self)),
      (''format'', PImageFormat (ImageMetadata.format self)),
      (''width'', optional PInt (ImageMetadata.width self)),
      (''height'', optional PInt (ImageMetadata.height self)),
      (''upload_date'', PDatetime (ImageMetadata.upload_date self)),
      (''mime_type'', PStr (ImageMetadata.mime_type self))]"

definition ConversionJobResponse_fields :: "ConversionJobResponse \<Rightarrow> pydict" where
  "ConversionJobResponse_fields self =
     [(''id'', PInt (ConversionJobResponse.id self)),
      (''source_image_id'', PInt (ConversionJobResponse.source_image_id self)),
      (''target_format'', PImageFormat (ConversionJobResponse.target_format self)),
      (''status'', PConversionStatus (ConversionJobResponse.status self)),
      (''quality'', optional PInt (ConversionJobResponse.quality self)),
      (''width'', optional PInt (ConversionJobResponse.width self)),
      (''height'', optional PInt (ConversionJobResponse.height self)),
      (''maintain_aspect_ratio'', PBool (ConversionJobResponse.maintain_aspect_ratio self)),
      (''created_at'', PDatetime (ConversionJobResponse.created_at self)),
      (''started_at'', optional PDatetime (ConversionJobResponse.started_at self)),
      (''completed_at'', optional PDatetime (ConversionJobResponse.completed_at self)),
      (''error_message'', optional PStr (ConversionJobResponse.error_message self)),
      (''processing_time_seconds'',
         optional PDecimal (ConversionJobResponse.processing_time_seconds self))]"

definition ConvertedImageResponse_fields :: "ConvertedImageResponse \<Rightarrow> pydict" where
  "ConvertedImageResponse_fields self =
     [(''id'', PInt (ConvertedImageResponse.id self)),
      (''filename'', PStr (ConvertedImageResponse.filename self)),
      (''file_size'', PInt (ConvertedImageResponse.file_size self)),
      (''format'', PImageFormat (ConvertedImageResponse.format self)),
      (''width'', PInt (ConvertedImageResponse.width self)),
      (''height'', PInt (ConvertedImageResponse.height self)),
      (''quality_used'', optional PInt (ConvertedImageResponse.quality_used self)),
      (''created_at'', PDatetime (ConvertedImageResponse.created_at self)),
      (''download_count'', PInt (ConvertedImageResponse.download_count self)),
      (''last_downloaded_at'', optional PDatetime (ConvertedImageResponse.last_downloaded_at self)),
      (''expires_at'', optional PDatetime (ConvertedImageResponse.expires_at self))]"

text \<open>
  The body of the three overrides. \<open>set_isoformat\<close> is
  \<^verbatim>\<open>if field in data and data[field]: data[field] = data[field].isoformat()\<close>;
  a true value that is not a datetime has no \<^verbatim>\<open>isoformat\<close>. \<open>for_fields\<close> is the
  \<^verbatim>\<open>for field in [...]\<close> loop around it.
\<close>

definition set_isoformat :: "string \<Rightarrow> pydict \<Rightarrow> error + pydict" where
  "set_isoformat field data =
     (case map_of data field of
        None \<Rightarrow> Inr data
      | Some v \<Rightarrow>
          if truthy v then
            (case v of
               PDatetime t \<Rightarrow> Inr (AList.update field (PStr (isoformat t)) data)
             | _ \<Rightarrow> Inl AttributeError)
          else Inr data)"

fun for_fields :: "string list \<Rightarrow> pydict \<Rightarrow> error + pydict" where
  "for_fields [] data = Inr data"
| "for_fields (field # rest) data =
     (case set_isoformat field data of
        Inl e \<Rightarrow> Inl e
      | Inr data' \<Rightarrow> for_fields rest data')"

definition ImageMetadata_dict :: "dict_kwargs \<Rightarrow> ImageMetadata \<Rightarrow> error + pydict" where
  "ImageMetadata_dict kwargs self =
     (let data = SQLModel_dict kwargs (ImageMetadata_fields self)
      in set_isoformat ''upload_date'' data)"

definition ConversionJobResponse_dict ::
  "dict_kwargs \<Rightarrow> ConversionJobResponse \<Rightarrow> error + pydict" where
  "ConversionJobResponse_dict kwargs self =
     (let data = SQLModel_dict kwargs (ConversionJobResponse_fields self)
      in for_fields [''created_at'', ''started_at'', ''completed_at''] data)"

definition ConvertedImageResponse_dict ::
  "dict_kwargs \<Rightarrow> ConvertedImageResponse \<Rightarrow> error + pydict" where
  "ConvertedImageResponse_dict kwargs self =
     (let data = SQLModel_dict kwargs (ConvertedImageResponse_fields self)
      in for_fields [''created_at'', ''last_downloaded_at'', ''expires_at''] data)"

text \<open>
  What the three overrides are to compute: \<open>isoformat_datetimes keys data\<close> is
  \<open>data\<close> with the same keys in the same order, where the value under each of
  \<open>keys\<close> is replaced by its ISO-8601 string when it is a datetime, and every other
  value (\<^verbatim>\<open>None\<close> under one of \<open>keys\<close> included) is left as it is.
  \<open>datetime_or_none data key\<close> says that \<open>key\<close> is absent from \<open>data\<close> or holds a
  datetime or \<^verbatim>\<open>None\<close>.
\<close>

definition isoformat_datetimes :: "string list \<Rightarrow> pydict \<Rightarrow> pydict" where
  "isoformat_datetimes keys data =
     map (\<lambda>(k, v). (k, if k \<in> set keys
                        then (case v of PDatetime t \<Rightarrow> PStr (isoformat t) | _ \<Rightarrow> v)
                        else v)) data"

definition datetime_or_none :: "pydict \<Rightarrow> string \<Rightarrow> bool" where
  "datetime_or_none data key \<longleftrightarrow>
     (case map_of data key of
        None \<Rightarrow> True
      | Some PNone \<Rightarrow> True
      | Some (PDatetime t) \<Rightarrow> True
      | _ \<Rightarrow> False)"

section \<open>The four tables and their column constraints\<close>

text \<open>
  The \<^verbatim>\<open>table=True\<close> classes declare the tables \<^verbatim>\<open>users\<close>, \<^verbatim>\<open>uploaded_images\<close>,
  \<^verbatim>\<open>conversion_jobs\<close> and \<^verbatim>\<open>converted_images\<close>. A store holds their rows in
  insertion order. What the classes declare about the columns is what the database
  enforces on every \<^verbatim>\<open>INSERT\<close> and \<^verbatim>\<open>UPDATE\<close>, rejecting the statement with an
  integrity error:
  \<^item> \<^verbatim>\<open>id: Optional[int] = Field(default=None, primary_key=True)\<close>: a row added
    without an id gets the next one; an id given by hand must be new;
  \<^item> \<^verbatim>\<open>Field(foreign_key="t.id")\<close>: the value must be the id of a row of \<^verbatim>\<open>t\<close>;
    where the field is \<^verbatim>\<open>Optional\<close> the column is nullable and \<^verbatim>\<open>None\<close> passes;
  \<^item> \<^verbatim>\<open>Field(unique=True)\<close>: no other row holds the same value.
\<close>

record store =
  users :: "User list"
  uploaded_images :: "UploadedImage list"
  conversion_jobs :: "ConversionJob list"
  converted_images :: "ConvertedImage list"

definition empty_store :: store where
  "empty_store =
     \<lparr>users = [], uploaded_images = [], conversion_jobs = [], converted_images = []\<rparr>"

definition next_id :: "int option list \<Rightarrow> int" where
  "next_id ids = fold (\<lambda>i m. case i of None \<Rightarrow> m | Some n \<Rightarrow> max n m) ids 0 + 1"

definition primary_key :: "int option list \<Rightarrow> int option \<Rightarrow> error + int" where
  "primary_key ids i =
     (case i of
        None \<Rightarrow> Inr (next_id ids)
      | Some n \<Rightarrow> if Some n \<in> set ids then Inl IntegrityError else Inr n)"

definition foreign_key :: "int option list \<Rightarrow> int \<Rightarrow> bool" where
  "foreign_key ids r \<longleftrightarrow> Some r \<in> set ids"

definition nullable_foreign_key :: "int option list \<Rightarrow> int option \<Rightarrow> bool" where
  "nullable_foreign_key ids r \<longleftrightarrow> (case r of None \<Rightarrow> True | Some n \<Rightarrow> foreign_key ids n)"

definition add_User :: "store \<Rightarrow> User \<Rightarrow> error + store" where
  "add_User s u =
     (case primary_key (map User.id (users s)) (User.id u) of
        Inl e \<Rightarrow> Inl e
      | Inr n \<Rightarrow>
          if email u \<in> set (map email (users s)) then Inl IntegrityError
          else Inr (s\<lparr>users := users s @ [u\<lparr>User.id := Some n\<rparr>]\<rparr>))"

definition add_UploadedImage :: "store \<Rightarrow> UploadedImage \<Rightarrow> error + store" where
  "add_UploadedImage s i =
     (case primary_key (map UploadedImage.id (uploaded_images s)) (UploadedImage.id i) of
        Inl e \<Rightarrow> Inl e
      | Inr n \<Rightarrow>
          if nullable_foreign_key (map User.id (users s)) (UploadedImage.user_id i)
          then Inr (s\<lparr>uploaded_images := uploaded_images s @ [i\<lparr>UploadedImage.id := Some n\<rparr>]\<rparr>)
          else Inl IntegrityError)"

definition add_ConversionJob :: "store \<Rightarrow> ConversionJob \<Rightarrow> error + store" where
  "add_ConversionJob s j =
     (case primary_key (map ConversionJob.id (conversion_jobs s)) (ConversionJob.id j) of
        Inl e \<Rightarrow> Inl e
      | Inr n \<Rightarrow>
          if nullable_foreign_key (map User.id (users s)) (ConversionJob.user_id j) \<and>
             foreign_key (map UploadedImage.id (uploaded_images s)) (ConversionJob.source_image_id j)
          then Inr (s\<lparr>conversion_jobs := conversion_jobs s @ [j\<lparr>ConversionJob.id := Some n\<rparr>]\<rparr>)
          else Inl IntegrityError)"

definition add_ConvertedImage :: "store \<Rightarrow> ConvertedImage \<Rightarrow> error + store" where
  "add_ConvertedImage s c =
     (case primary_key (map ConvertedImage.id (converted_images s)) (ConvertedImage.id c) of
        Inl e \<Rightarrow> Inl e
      | Inr n \<Rightarrow>
          if foreign_key (map ConversionJob.id (conversion_jobs s)) (ConvertedImage.conversion_job_id c) \<and>
             ConvertedImage.conversion_job_id c
               \<notin> set (map ConvertedImage.conversion_job_id (converted_images s))
          then Inr (s\<lparr>converted_images := converted_images s @ [c\<lparr>ConvertedImage.id := Some n\<rparr>]\<rparr>)
          else Inl IntegrityError)"

text \<open>
  An \<^verbatim>\<open>UPDATE\<close> writes a changed row back under its primary key; the foreign keys
  and the unique columns of the new row are checked against the other rows.
\<close>

definition update_User :: "store \<Rightarrow> User \<Rightarrow> error + store" where
  "update_User s u =
     (if User.id u = None \<or> User.id u \<notin> set (map User.id (users s)) then Inl NotFoundError
      else if email u \<in> set (map email (filter (\<lambda>x. User.id x \<noteq> User.id u) (users s)))
      then Inl IntegrityError
      else Inr (s\<lparr>users := map (\<lambda>x. if User.id x = User.id u then u else x) (users s)\<rparr>))"

definition update_UploadedImage :: "store \<Rightarrow> UploadedImage \<Rightarrow> error + store" where
  "update_UploadedImage s i =
     (if UploadedImage.id i = None \<or>
         UploadedImage.id i \<notin> set (map UploadedImage.id (uploaded_images s))
      then Inl NotFoundError
      else if nullable_foreign_key (map User.id (users s)) (UploadedImage.user_id i)
      then Inr (s\<lparr>uploaded_images :=
                   map (\<lambda>x. if UploadedImage.id x = UploadedImage.id i then i else x)
                     (uploaded_images s)\<rparr>)
      else Inl IntegrityError)"

definition update_ConversionJob :: "store \<Rightarrow> ConversionJob \<Rightarrow> error + store" where
  "update_ConversionJob s j =
     (if ConversionJob.id j = None \<or>
         ConversionJob.id j \<notin> set (map ConversionJob.id (conversion_jobs s))
      then Inl NotFoundError
      else if nullable_foreign_key (map User.id (users s)) (ConversionJob.user_id j) \<and>
              foreign_key (map UploadedImage.id (uploaded_images s)) (ConversionJob.source_image_id j)
      then Inr (s\<lparr>conversion_jobs :=
                   map (\<lambda>x. if ConversionJob.id x = ConversionJob.id j then j else x)
                     (conversion_jobs s)\<rparr>)
      else Inl IntegrityError)"

definition update_ConvertedImage :: "store \<Rightarrow> ConvertedImage \<Rightarrow> error + store" where
  "update_ConvertedImage s c =
     (if ConvertedImage.id c = None \<or>
         ConvertedImage.id c \<notin> set (map ConvertedImage.id (converted_images s))
      then Inl NotFoundError
      else if foreign_key (map ConversionJob.id (conversion_jobs s)) (ConvertedImage.conversion_job_id c) \<and>
              ConvertedImage.conversion_job_id c
                \<notin> set (map ConvertedImage.conversion_job_id
                         (filter (\<lambda>x. ConvertedImage.id x \<noteq> ConvertedImage.id c) (converted_images s)))
      then Inr (s\<lparr>converted_images :=
                   map (\<lambda>x. if ConvertedImage.id x = ConvertedImage.id c then c else x)
                     (converted_images s)\<rparr>)
      else Inl IntegrityError)"

text \<open>The stores the statements above build, starting from the empty tables.\<close>

inductive reachable :: "store \<Rightarrow> bool" where
  empty: "reachable empty_store"
| add_user: "reachable s \<Longrightarrow> add_User s u = Inr s' \<Longrightarrow> reachable s'"
| add_image: "reachable s \<Longrightarrow> add_UploadedImage s i = Inr s' \<Longrightarrow> reachable s'"
| add_job: "reachable s \<Longrightarrow> add_ConversionJob s j = Inr s' \<Longrightarrow> reachable s'"
| add_converted: "reachable s \<Longrightarrow> add_ConvertedImage s c = Inr s' \<Longrightarrow> reachable s'"
| update_user: "reachable s \<Longrightarrow> update_User s u = Inr s' \<Longrightarrow> reachable s'"
| update_image: "reachable s \<Longrightarrow> update_UploadedImage s i = Inr s' \<Longrightarrow> reachable s'"
| update_job: "reachable s \<Longrightarrow> update_ConversionJob s j = Inr s' \<Longrightarrow> reachable s'"
| update_converted: "reachable s \<Longrightarrow> update_ConvertedImage s c = Inr s' \<Longrightarrow> reachable s'"

text \<open>
  The \<^verbatim>\<open>Relationship\<close> attributes of a job and of a converted image: the rows the
  foreign keys join them to.
\<close>

definition source_image :: "store \<Rightarrow> ConversionJob \<Rightarrow> UploadedImage option" where
  "source_image s j =
     find (\<lambda>i. UploadedImage.id i = Some (ConversionJob.source_image_id j)) (uploaded_images s)"


definition conversion_job :: "store \<Rightarrow> ConvertedImage \<Rightarrow> ConversionJob option" where
  "conversion_job s c =
     find (\<lambda>j. ConversionJob.id j = Some (ConvertedImage.conversion_job_id c)) (conversion_jobs s)"

section \<open>The conversion job lifecycle engine\<close>

text \<open>
  The repository holds the data model only. The operations on a job (\<^verbatim>\<open>submit\<close>,
  \<^verbatim>\<open>claim\<close>, \<^verbatim>\<open>succeed\<close>, \<^verbatim>\<open>fail\<close>, \<^verbatim>\<open>cancel\<close>) and the entity store operations
  they call are modelled from the specification's sections 4.1 and 4.4, over the
  store and the records above.
\<close>

definition get_image :: "store \<Rightarrow> int \<Rightarrow> UploadedImage option" where
  \<comment> \<open>Modelled from the spec: the entity store's \<^verbatim>\<open>get_image(id) -> UploadedImage | NotFound\<close>.\<close>
  "get_image s i = find (\<lambda>img. UploadedImage.id img = Some i) (uploaded_images s)"

definition get_job :: "store \<Rightarrow> int \<Rightarrow> ConversionJob option" where
  \<comment> \<open>Modelled from the spec: the entity store's \<^verbatim>\<open>get_job(id) -> ConversionJob | NotFound\<close>.\<close>
  "get_job s i = find (\<lambda>j. ConversionJob.id j = Some i) (conversion_jobs s)"

definition create_job :: "store \<Rightarrow> datetime \<Rightarrow> ConversionRequest \<Rightarrow> ConversionJob \<times> store" where
  \<comment> \<open>Modelled from the spec: the entity store's \<^verbatim>\<open>create_job(req) -> ConversionJob\<close>. The
      job is the class's constructor applied to the request's fields, every other field
      at its declared default, stored under the next id.\<close>
  "create_job s now req =
     (let j = (ConversionJob_new now (ConversionRequest.source_image_id req)
                 (ConversionRequest.target_format req))
               \<lparr>ConversionJob.id := Some (next_id (map ConversionJob.id (conversion_jobs s))),
                ConversionJob.user_id := ConversionRequest.user_id req,
                ConversionJob.quality := ConversionRequest.quality req,
                ConversionJob.width := ConversionRequest.width req,
                ConversionJob.height := ConversionRequest.height req,
                ConversionJob.maintain_aspect_ratio := ConversionRequest.maintain_aspect_ratio req\<rparr>
      in (j, s\<lparr>conversion_jobs := conversion_jobs s @ [j]\<rparr>))"

definition update_job :: "store \<Rightarrow> int \<Rightarrow> (ConversionJob \<Rightarrow> ConversionJob) \<Rightarrow> store" where
  \<comment> \<open>Modelled from the spec: the entity store's \<^verbatim>\<open>update_job(id, fields, expected_version)\<close>,
      applied once the guard on the expected status has passed.\<close>
  "update_job s i f =
     s\<lparr>conversion_jobs :=
         map (\<lambda>j. if ConversionJob.id j = Some i then f j else j) (conversion_jobs s)\<rparr>"

definition create_converted_image :: "store \<Rightarrow> datetime \<Rightarrow> ConvertedImageCreate \<Rightarrow> store" where
  \<comment> \<open>Modelled from the spec: the entity store's
      \<^verbatim>\<open>create_converted_image(record) -> ConvertedImage\<close>. The row is the class's constructor
      applied to the record's fields, every other field at its declared default.\<close>
  "create_converted_image s now a =
     (let c = (ConvertedImage_new now (ConvertedImageCreate.conversion_job_id a)
                 (ConvertedImageCreate.filename a) (ConvertedImageCreate.file_path a)
                 (ConvertedImageCreate.file_size a) (ConvertedImageCreate.mime_type a)
                 (ConvertedImageCreate.format a) (ConvertedImageCreate.width a)
                 (ConvertedImageCreate.height a))
               \<lparr>ConvertedImage.id := Some (next_id (map ConvertedImage.id (converted_images s))),
                ConvertedImage.quality_used := ConvertedImageCreate.quality_used a,
                ConvertedImage.expires_at := ConvertedImageCreate.expires_at a\<rparr>
      in s\<lparr>converted_images := converted_images s @ [c]\<rparr>)"

definition submit :: "store \<Rightarrow> datetime \<Rightarrow> ConversionRequest_body \<Rightarrow> (error + ConversionJob) \<times> store" where
  \<comment> \<open>Modelled from the spec: \<^verbatim>\<open>submit(ConversionRequest) -> ConversionJob\<close> "validates
      source_image exists and is not deleted, target_format is supported, quality in [1,100]
      when present, width/height >= 1 when present; creates job PENDING; fails with
      ValidationError otherwise (never persists invalid requests)". The checks on the body
      are those of the \<^verbatim>\<open>ConversionRequest\<close> schema.\<close>
  "submit s now body =
     (case ConversionRequest_validate body of
        Inl e \<Rightarrow> (Inl ValidationError, s)
      | Inr req \<Rightarrow>
          (case get_image s (ConversionRequest.source_image_id req) of
             None \<Rightarrow> (Inl ValidationError, s)
           | Some img \<Rightarrow>
               if UploadedImage.is_deleted img then (Inl ValidationError, s)
               else (let (j, s') = create_job s now req in (Inr j, s'))))"

definition claim :: "store \<Rightarrow> datetime \<Rightarrow> int \<Rightarrow> error + store" where
  \<comment> \<open>Modelled from the spec: the transition PENDING to PROCESSING, "a single atomic
      conditional update (status PENDING -> PROCESSING guarded by expected version/status)"
      that sets \<^verbatim>\<open>started_at=now\<close> and otherwise "fails with Conflict, no-op for caller".\<close>
  "claim s now i =
     (case get_job s i of
        None \<Rightarrow> Inl NotFoundError
      | Some j \<Rightarrow>
          if ConversionJob.status j = ConversionStatus_value PENDING
          then Inr (update_job s i
                      (\<lambda>j. j\<lparr>ConversionJob.status := ConversionStatus_value PROCESSING,
                              ConversionJob.started_at := Some now\<rparr>))
          else Inl ConflictError)"

definition days_from_civil :: "datetime \<Rightarrow> int" where
  \<comment> \<open>Modelled from the spec: the days from 1970-01-01 to the date, for the difference of
      two datetimes.\<close>
  "days_from_civil t =
     (let y = int (year t) - (if month t \<le> 2 then 1 else 0);
          era = y div 400;
          yoe = y - era * 400;
          mp = (int (month t) + 9) mod 12;
          doy = (153 * mp + 2) div 5 + int (day t) - 1;
          doe = yoe * 365 + yoe div 4 - yoe div 100 + doy
      in era * 146097 + doe - 719468)"

definition microseconds :: "datetime \<Rightarrow> int" where
  \<comment> \<open>Modelled from the spec: the datetime as microseconds from 1970-01-01T00:00:00.\<close>
  "microseconds t =
     (((days_from_civil t * 24 + int (hour t)) * 60 + int (minute t)) * 60 + int (second t))
       * 1000000 + int (microsecond t)"

definition seconds_between :: "datetime \<Rightarrow> datetime \<Rightarrow> Decimal" where
  \<comment> \<open>Modelled from the spec: \<^verbatim>\<open>processing_time_seconds=completed_at-started_at\<close>, in
      seconds with six decimal places.\<close>
  "seconds_between a b = Decimal (microseconds b - microseconds a) (- 6)"

definition processing_time :: "ConversionJob \<Rightarrow> datetime \<Rightarrow> Decimal option" where
  \<comment> \<open>Modelled from the spec: the processing time recorded on a terminal transition.\<close>
  "processing_time j now =
     (case ConversionJob.started_at j of
        None \<Rightarrow> None
      | Some t \<Rightarrow> Some (seconds_between t now))"

definition succeed :: "store \<Rightarrow> datetime \<Rightarrow> int \<Rightarrow> ConvertedImageCreate \<Rightarrow> error + store" where
  \<comment> \<open>Modelled from the spec: the transition PROCESSING to COMPLETED on \<^verbatim>\<open>succeed(artifact)\<close>:
      "set completed_at=now, processing_time_seconds=completed_at-started_at, persist
      ConvertedImage".\<close>
  "succeed s now i artifact =
     (case get_job s i of
        None \<Rightarrow> Inl NotFoundError
      | Some j \<Rightarrow>
          if ConversionJob.status j = ConversionStatus_value PROCESSING
          then Inr (create_converted_image
                      (update_job s i
                         (\<lambda>j. j\<lparr>ConversionJob.status := ConversionStatus_value COMPLETED,
                                 ConversionJob.completed_at := Some now,
                                 ConversionJob.processing_time_seconds := processing_time j now\<rparr>))
                      now (artifact\<lparr>ConvertedImageCreate.conversion_job_id := i\<rparr>))
          else Inl ConflictError)"

definition fail :: "store \<Rightarrow> datetime \<Rightarrow> int \<Rightarrow> string \<Rightarrow> error + store" where
  \<comment> \<open>Modelled from the spec: the transition PROCESSING to FAILED on \<^verbatim>\<open>fail(error)\<close>: "set
      completed_at=now, error_message=error, processing_time_seconds computed".\<close>
  "fail s now i err =
     (case get_job s i of
        None \<Rightarrow> Inl NotFoundError
      | Some j \<Rightarrow>
          if ConversionJob.status j = ConversionStatus_value PROCESSING
          then Inr (update_job s i
                      (\<lambda>j. j\<lparr>ConversionJob.status := ConversionStatus_value FAILED,
                              ConversionJob.completed_at := Some now,
                              ConversionJob.error_message := Some err,
                              ConversionJob.processing_time_seconds := processing_time j now\<rparr>))
          else Inl ConflictError)"

definition cancel :: "store \<Rightarrow> datetime \<Rightarrow> int \<Rightarrow> error + store" where
  \<comment> \<open>Modelled from the spec: the transition PENDING/PROCESSING to FAILED on \<^verbatim>\<open>cancel()\<close>:
      "error_message="cancelled"; only permitted before terminal state". FAILED is a
      terminal state, so the transition sets \<^verbatim>\<open>completed_at\<close> and records the processing
      time as every terminal transition does (section 3); a job cancelled while PENDING
      never started, so it has no \<^verbatim>\<open>started_at\<close> and no processing time.\<close>
  "cancel s now i =
     (case get_job s i of
        None \<Rightarrow> Inl NotFoundError
      | Some j \<Rightarrow>
          if ConversionJob.status j = ConversionStatus_value PENDING \<or>
             ConversionJob.status j = ConversionStatus_value PROCESSING
          then Inr (update_job s i
                      (\<lambda>j. j\<lparr>ConversionJob.status := ConversionStatus_value FAILED,
                              ConversionJob.completed_at := Some now,
                              ConversionJob.error_message := Some ''cancelled'',
                              ConversionJob.processing_time_seconds := processing_time j now\<rparr>))
          else Inl ConflictError)"

fun claims :: "store \<Rightarrow> int \<Rightarrow> datetime list \<Rightarrow> error option list \<times> store" where
  \<comment> \<open>Modelled from the spec: callers racing for one job. Each \<^verbatim>\<open>claim()\<close> is atomic, so
      a race is the callers' claims in the order the store serialises them, whichever
      it is; the list gives each caller's clock in that order. A caller's result is
      \<open>None\<close> when it claimed the job, and the error it was given otherwise.\<close>
  "claims s i [] = ([], s)"
| "claims s i (now # rest) =
     (case claim s now i of
        Inr s' \<Rightarrow> (let (rs, s'') = claims s' i rest in (None # rs, s''))
      | Inl e \<Rightarrow> (let (rs, s'') = claims s i rest in (Some e # rs, s'')))"

inductive evolves :: "store \<Rightarrow> store \<Rightarrow> bool" where
  \<comment> \<open>Modelled from the spec: \<open>evolves s s'\<close> when the engine's operations, any number of
      them in any order and for any jobs, take the store \<open>s\<close> to \<open>s'\<close>. An operation
      that fails leaves the store as it was.\<close>
  same: "evolves s s"
| submit: "evolves s s1 \<Longrightarrow> submit s1 now body = (r, s2) \<Longrightarrow> evolves s s2"
| claim: "evolves s s1 \<Longrightarrow> claim s1 now i = Inr s2 \<Longrightarrow> evolves s s2"
| succeed: "evolves s s1 \<Longrightarrow> succeed s1 now i artifact = Inr s2 \<Longrightarrow> evolves s s2"
| fail: "evolves s s1 \<Longrightarrow> fail s1 now i err = Inr s2 \<Longrightarrow> evolves s s2"
| cancel: "evolves s s1 \<Longrightarrow> cancel s1 now i = Inr s2 \<Longrightarrow> evolves s s2"


definition claimed :: "store \<Rightarrow> int \<Rightarrow> bool" where
  \<comment> \<open>The job exists and has left PENDING.\<close>
  "claimed s i \<longleftrightarrow>
     (case get_job s i of None \<Rightarrow> False | Some j \<Rightarrow> ConversionJob.status j \<noteq> ConversionStatus_value PENDING)"



section \<open>Consistency of a store\<close>

text \<open>
  What the column constraints say of a whole store: in every table the ids are set and
  different, the unique columns hold different values, and every foreign key is the id
  of a row of the table it names.
\<close>

definition users_consistent :: "store \<Rightarrow> bool" where
  "users_consistent s \<longleftrightarrow>
     None \<notin> set (map User.id (users s)) \<and>
     distinct (map User.id (users s)) \<and>
     distinct (map email (users s))"

definition uploaded_images_consistent :: "store \<Rightarrow> bool" where
  "uploaded_images_consistent s \<longleftrightarrow>
     None \<notin> set (map UploadedImage.id (uploaded_images s)) \<and>
     distinct (map UploadedImage.id (uploaded_images s)) \<and>
     list_all (\<lambda>i. nullable_foreign_key (map User.id (users s)) (UploadedImage.user_id i))
       (uploaded_images s)"

definition conversion_jobs_consistent :: "store \<Rightarrow> bool" where
  "conversion_jobs_consistent s \<longleftrightarrow>
     None \<notin> set (map ConversionJob.id (conversion_jobs s)) \<and>
     distinct (map ConversionJob.id (conversion_jobs s)) \<and>
     list_all (\<lambda>j. nullable_foreign_key (map User.id (users s)) (ConversionJob.user_id j) \<and>
                   foreign_key (map UploadedImage.id (uploaded_images s))
                     (ConversionJob.source_image_id j))
       (conversion_jobs s)"

definition converted_images_consistent :: "store \<Rightarrow> bool" where
  "converted_images_consistent s \<longleftrightarrow>
     None \<notin> set (map ConvertedImage.id (converted_images s)) \<and>
     distinct (map ConvertedImage.id (converted_images s)) \<and>
     distinct (map ConvertedImage.conversion_job_id (converted_images s)) \<and>
     list_all (\<lambda>c. foreign_key (map ConversionJob.id (conversion_jobs s))
                     (ConvertedImage.conversion_job_id c))
       (converted_images s)"

definition consistent :: "store \<Rightarrow> bool" where
  "consistent s \<longleftrightarrow>
     users_consistent s \<and> uploaded_images_consistent s \<and>
     conversion_jobs_consistent s \<and> converted_images_consistent s"

section \<open>Example values\<close>

definition t0 :: datetime where
  "t0 = \<lparr>year = 2024, month = 1, day = 2, hour = 3, minute = 4, second = 5, microsecond = 0\<rparr>"

definition t1 :: datetime where
  "t1 = \<lparr>year = 2024, month = 1, day = 2, hour = 3, minute = 4, second = 7,
          microsecond = 250000\<rparr>"

definition example_converted :: ConvertedImage where
  "example_converted =
     (ConvertedImage_new t0 1 ''a.webp'' ''/out/a.webp'' 10 ''image/webp'' WEBP 4 3)
       \<lparr>ConvertedImage.quality_used := Some 80\<rparr>"

definition no_kwargs :: dict_kwargs where
  "no_kwargs = \<lparr>include_keys = None, exclude_keys = None, exclude_none = False\<rparr>"

definition example_metadata :: ImageMetadata where
  "example_metadata =
     \<lparr>ImageMetadata.id = 1, ImageMetadata.filename = ''a.png'', ImageMetadata.file_size = 10,
      ImageMetadata.format = PNG, ImageMetadata.width = Some 4, ImageMetadata.height = None,
      ImageMetadata.upload_date = t0, ImageMetadata.mime_type = ''image/png''\<rparr>"

definition example_job_response :: ConversionJobResponse where
  "example_job_response =
     \<lparr>ConversionJobResponse.id = 7, ConversionJobResponse.source_image_id = 1,
      ConversionJobResponse.target_format = WEBP, ConversionJobResponse.status = PROCESSING,
      ConversionJobResponse.quality = Some 80, ConversionJobResponse.width = None,
      ConversionJobResponse.height = None, ConversionJobResponse.maintain_aspect_ratio = True,
      ConversionJobResponse.created_at = t0, ConversionJobResponse.started_at = Some t1,
      ConversionJobResponse.completed_at = None, ConversionJobResponse.error_message = None,
      ConversionJobResponse.processing_time_seconds = None\<rparr>"

definition example_image :: UploadedImage where
  "example_image =
     \<lparr>UploadedImage.id = None, UploadedImage.user_id = None, original_filename = ''a.jpg'',
      stored_filename = ''0001.jpg'', UploadedImage.file_path = ''/in/0001.jpg'',
      UploadedImage.file_size = 20, UploadedImage.mime_type = ''image/jpeg'',
      original_format = JPEG, UploadedImage.width = Some 8, UploadedImage.height = Some 6,
      UploadedImage.upload_date = t0, UploadedImage.is_deleted = False\<rparr>"

definition example_store :: store where
  "example_store =
     \<lparr>users = [],
      uploaded_images = [example_image\<lparr>UploadedImage.id := Some 1\<rparr>],
      conversion_jobs = [(ConversionJob_new t0 1 WEBP)\<lparr>ConversionJob.id := Some 1\<rparr>],
      converted_images = [example_converted\<lparr>ConvertedImage.id := Some 1\<rparr>]\<rparr>"

definition image_store :: store where
  "image_store = empty_store\<lparr>uploaded_images := [example_image\<lparr>UploadedImage.id := Some 1\<rparr>]\<rparr>"

definition example_body :: ConversionRequest_body where
  "example_body =
     \<lparr>ConversionRequest_body.source_image_id = 1, ConversionRequest_body.target_format = ''webp'',
      ConversionRequest_body.user_id = None, ConversionRequest_body.quality = Some 80,
      ConversionRequest_body.width = Some 960, ConversionRequest_body.height = None,
      ConversionRequest_body.maintain_aspect_ratio = None\<rparr>"

definition example_job :: ConversionJob where
  "example_job =
     (ConversionJob_new t0 1 WEBP)
       \<lparr>ConversionJob.id := Some 1, ConversionJob.quality := Some 80,
        ConversionJob.width := Some 960\<rparr>"

definition example_artifact :: ConvertedImageCreate where
  "example_artifact =
     \<lparr>ConvertedImageCreate.conversion_job_id = 1, ConvertedImageCreate.filename = ''a.webp'',
      ConvertedImageCreate.file_path = ''/out/a.webp'', ConvertedImageCreate.file_size = 10,
      ConvertedImageCreate.mime_type = ''image/webp'', ConvertedImageCreate.format = WEBP,
      ConvertedImageCreate.width = 960, ConvertedImageCreate.height = 720,
      ConvertedImageCreate.quality_used = Some 80, ConvertedImageCreate.expires_at = None\<rparr>"

definition pending_store :: store where
  "pending_store = image_store\<lparr>conversion_jobs := [example_job]\<rparr>"


definition job_store :: store where
  "job_store =
     image_store\<lparr>conversion_jobs :=
       [(ConversionJob_new t0 1 WEBP)\<lparr>ConversionJob.id := Some 1\<rparr>]\<rparr>"

definition unchecked_converted :: ConvertedImage where
  "unchecked_converted =
     (ConvertedImage_new t0 1 ''a.webp'' ''/out/a.webp'' 10 ''image/webp'' WEBP (- 1) (- 3))
       \<lparr>ConvertedImage.quality_used := Some 0, ConvertedImage.download_count := - 7\<rparr>"



definition example_converted_response :: ConvertedImageResponse where
  "example_converted_response =
     \<lparr>ConvertedImageResponse.id = 3, ConvertedImageResponse.filename = ''a.webp'',
      ConvertedImageResponse.file_size = 10, ConvertedImageResponse.format = WEBP,
      ConvertedImageResponse.width = 960, ConvertedImageResponse.height = 720,
      ConvertedImageResponse.quality_used = None, ConvertedImageResponse.created_at = t0,
      ConvertedImageResponse.download_count = 2,
      ConvertedImageResponse.last_downloaded_at = Some t1,
      ConvertedImageResponse.expires_at = None\<rparr>"

definition example_request :: ConversionRequest where
  "example_request =
     \<lparr>ConversionRequest.source_image_id = 1, ConversionRequest.target_format = WEBP,
      ConversionRequest.user_id = None, ConversionRequest.quality = Some 80,
      ConversionRequest.width = Some 960, ConversionRequest.height = None,
      ConversionRequest.maintain_aspect_ratio = True\<rparr>"

section \<open>The enumeration of the image formats is closed\<close>



section \<open>Serialisation of the response schemas\<close>

lemma isoformat_datetimes_keys [simp]:
  "map fst (isoformat_datetimes ks d) = map fst d"
  by (induction d) (auto simp: isoformat_datetimes_def)

lemma isoformat_datetimes_Nil [simp]: "isoformat_datetimes [] d = d"
  by (induction d) (auto simp: isoformat_datetimes_def)

lemma map_of_isoformat_datetimes:
  "map_of (isoformat_datetimes ks d) k =
     (case map_of d k of
        None \<Rightarrow> None
      | Some v \<Rightarrow> Some (if k \<in> set ks
                        then (case v of PDatetime t \<Rightarrow> PStr (isoformat t) | _ \<Rightarrow> v)
                        else v))"
  by (induction d) (auto simp: isoformat_datetimes_def split: pyval.splits)

lemma isoformat_datetimes_absent:
  "map_of d f = None \<Longrightarrow> isoformat_datetimes [f] d = d"
  by (induction d) (auto simp: isoformat_datetimes_def split: if_splits)

lemma isoformat_datetimes_none:
  "distinct (map fst d) \<Longrightarrow> map_of d f = Some PNone \<Longrightarrow> isoformat_datetimes [f] d = d"
proof (induction d)
  case Nil
  then show ?case by simp
next
  case (Cons a d)
  obtain k v where a: "a = (k, v)" by (cases a)
  show ?case
  proof (cases "k = f")
    case True
    with Cons.prems a have "v = PNone" and "map_of d f = None"
      by (auto simp: map_of_eq_None_iff)
    with True a isoformat_datetimes_absent [of d f] show ?thesis
      by (simp add: isoformat_datetimes_def)
  next
    case False
    with Cons a show ?thesis by (simp add: isoformat_datetimes_def)
  qed
qed

lemma update_isoformat_datetimes:
  "distinct (map fst d) \<Longrightarrow> map_of d f = Some (PDatetime t) \<Longrightarrow>
     AList.update f (PStr (isoformat t)) d = isoformat_datetimes [f] d"
proof (induction d)
  case Nil
  then show ?case by simp
next
  case (Cons a d)
  obtain k v where a: "a = (k, v)" by (cases a)
  show ?case
  proof (cases "k = f")
    case True
    with Cons.prems a have "v = PDatetime t" and "map_of d f = None"
      by (auto simp: map_of_eq_None_iff)
    with True a isoformat_datetimes_absent [of d f] show ?thesis
      by (simp add: isoformat_datetimes_def)
  next
    case False
    with Cons a show ?thesis by (simp add: isoformat_datetimes_def)
  qed
qed

lemma set_isoformat_eq:
  assumes "distinct (map fst d)" and "datetime_or_none d f"
  shows "set_isoformat f d = Inr (isoformat_datetimes [f] d)"
proof (cases "map_of d f")
  case None
  then show ?thesis
    by (simp add: set_isoformat_def isoformat_datetimes_absent)
next
  case (Some v)
  with assms(2) consider "v = PNone" | t where "v = PDatetime t"
    by (auto simp: datetime_or_none_def split: pyval.splits)
  then show ?thesis
  proof cases
    case 1
    with Some assms(1) show ?thesis
      by (simp add: set_isoformat_def isoformat_datetimes_none)
  next
    case 2
    with Some assms(1) show ?thesis
      by (simp add: set_isoformat_def update_isoformat_datetimes)
  qed
qed

lemma isoformat_datetimes_Cons:
  "isoformat_datetimes ks (isoformat_datetimes [f] d) = isoformat_datetimes (f # ks) d"
  by (induction d) (auto simp: isoformat_datetimes_def split: pyval.splits)

lemma datetime_or_none_step:
  "g \<noteq> f \<Longrightarrow> datetime_or_none (isoformat_datetimes [f] d) g = datetime_or_none d g"
  by (simp add: datetime_or_none_def map_of_isoformat_datetimes split: option.splits)

lemma for_fields_eq:
  "distinct fs \<Longrightarrow> distinct (map fst d) \<Longrightarrow> list_all (datetime_or_none d) fs \<Longrightarrow>
     for_fields fs d = Inr (isoformat_datetimes fs d)"
proof (induction fs arbitrary: d)
  case Nil
  then show ?case by simp
next
  case (Cons f fs)
  let ?d = "isoformat_datetimes [f] d"
  have step: "set_isoformat f d = Inr ?d"
    using Cons.prems by (simp add: set_isoformat_eq)
  have "list_all (datetime_or_none ?d) fs"
    unfolding list_all_iff
  proof
    fix g assume g: "g \<in> set fs"
    with Cons.prems have "g \<noteq> f" and "datetime_or_none d g"
      by (auto simp: list_all_iff)
    then show "datetime_or_none ?d g"
      by (simp add: datetime_or_none_step)
  qed
  with Cons.prems have "for_fields fs ?d = Inr (isoformat_datetimes fs ?d)"
    by (intro Cons.IH) simp_all
  with step show ?case
    by (simp add: isoformat_datetimes_Cons)
qed

lemma SQLModel_dict_distinct:
  "distinct (map fst d) \<Longrightarrow> distinct (map fst (SQLModel_dict kw d))"
  by (simp add: SQLModel_dict_def distinct_map_filter)

lemma SQLModel_dict_datetime_or_none:
  assumes "distinct (map fst d)" and "datetime_or_none d f"
  shows "datetime_or_none (SQLModel_dict kw d) f"
proof (cases "map_of (SQLModel_dict kw d) f")
  case None
  then show ?thesis by (simp add: datetime_or_none_def)
next
  case (Some v)
  then have "(f, v) \<in> set d"
    by (auto simp: SQLModel_dict_def dest: map_of_SomeD)
  with assms(1) have "map_of d f = Some v" by simp
  with assms(2) Some show ?thesis by (simp add: datetime_or_none_def)
qed

lemma ImageMetadata_fields_ok:
  "distinct (map fst (ImageMetadata_fields m)) \<and>
   datetime_or_none (ImageMetadata_fields m) ''upload_date''"
  by (simp add: ImageMetadata_fields_def datetime_or_none_def)

lemma ConversionJobResponse_fields_ok:
  "distinct (map fst (ConversionJobResponse_fields r)) \<and>
   list_all (datetime_or_none (ConversionJobResponse_fields r))
     [''created_at'', ''started_at'', ''completed_at'']"
  by (simp add: ConversionJobResponse_fields_def datetime_or_none_def optional_def
        split: option.splits)

lemma ConvertedImageResponse_fields_ok:
  "distinct (map fst (ConvertedImageResponse_fields c)) \<and>
   list_all (datetime_or_none (ConvertedImageResponse_fields c))
     [''created_at'', ''last_downloaded_at'', ''expires_at'']"
  by (simp add: ConvertedImageResponse_fields_def datetime_or_none_def optional_def
        split: option.splits)

lemma ConversionJobResponse_dict_eq:
  "ConversionJobResponse_dict kw r =
     Inr (isoformat_datetimes [''created_at'', ''started_at'', ''completed_at'']
            (SQLModel_dict kw (ConversionJobResponse_fields r)))"
proof -
  let ?d = "SQLModel_dict kw (ConversionJobResponse_fields r)"
  let ?fs = "[''created_at'', ''started_at'', ''completed_at'']"
  have 1: "distinct ?fs" by simp
  have 2: "distinct (map fst ?d)"
    using ConversionJobResponse_fields_ok [of r] by (simp add: SQLModel_dict_distinct)
  have 3: "list_all (datetime_or_none ?d) ?fs"
    using ConversionJobResponse_fields_ok [of r] by (simp add: SQLModel_dict_datetime_or_none)
  show ?thesis
    unfolding ConversionJobResponse_dict_def Let_def by (rule for_fields_eq [OF 1 2 3])
qed

lemma ConvertedImageResponse_dict_eq:
  "ConvertedImageResponse_dict kw c =
     Inr (isoformat_datetimes [''created_at'', ''last_downloaded_at'', ''expires_at'']
            (SQLModel_dict kw (ConvertedImageResponse_fields c)))"
proof -
  let ?d = "SQLModel_dict kw (ConvertedImageResponse_fields c)"
  let ?fs = "[''created_at'', ''last_downloaded_at'', ''expires_at'']"
  have 1: "distinct ?fs" by simp
  have 2: "distinct (map fst ?d)"
    using ConvertedImageResponse_fields_ok [of c] by (simp add: SQLModel_dict_distinct)
  have 3: "list_all (datetime_or_none ?d) ?fs"
    using ConvertedImageResponse_fields_ok [of c] by (simp add: SQLModel_dict_datetime_or_none)
  show ?thesis
    unfolding ConvertedImageResponse_dict_def Let_def by (rule for_fields_eq [OF 1 2 3])
qed

lemma ImageMetadata_dict_eq:
  "ImageMetadata_dict kw m =
     Inr (isoformat_datetimes [''upload_date''] (SQLModel_dict kw (ImageMetadata_fields m)))"
proof -
  let ?d = "SQLModel_dict kw (ImageMetadata_fields m)"
  have 2: "distinct (map fst ?d)"
    using ImageMetadata_fields_ok [of m] by (simp add: SQLModel_dict_distinct)
  have 3: "datetime_or_none ?d ''upload_date''"
    using ImageMetadata_fields_ok [of m] by (simp add: SQLModel_dict_datetime_or_none)
  show ?thesis
    unfolding ImageMetadata_dict_def Let_def by (rule set_isoformat_eq [OF 2 3])
qed

lemma isoformat_datetimes_SQLModel_dict:
  "isoformat_datetimes ks (SQLModel_dict kw d) = SQLModel_dict kw (isoformat_datetimes ks d)"
proof -
  let ?f = "\<lambda>(k, v). (k, if k \<in> set ks
                            then (case v of PDatetime t \<Rightarrow> PStr (isoformat t) | _ \<Rightarrow> v)
                            else v)"
  let ?P = "\<lambda>(k, v).
        (case include_keys kw of None \<Rightarrow> True | Some ks \<Rightarrow> k \<in> set ks) \<and>
        (case exclude_keys kw of None \<Rightarrow> True | Some ks \<Rightarrow> k \<notin> set ks) \<and>
        \<not> (exclude_none kw \<and> v = PNone)"
  have "?P (?f x) = ?P x" for x
    by (cases x) (auto split: pyval.splits)
  then have "filter ?P (map ?f d) = map ?f (filter ?P d)"
    by (induction d) simp_all
  then show ?thesis
    unfolding isoformat_datetimes_def SQLModel_dict_def by simp
qed

lemma ImageMetadata_fields_iso:
  "isoformat_datetimes [''upload_date''] (ImageMetadata_fields m) =
     [(''id'', PInt (ImageMetadata.id m)),
      (''filename'', PStr (ImageMetadata.filename m)),
      (''file_size'', PInt (ImageMetadata.file_size m)),
      (''format'', PImageFormat (ImageMetadata.format m)),
      (''width'', case_option PNone PInt (ImageMetadata.width m)),
      (''height'', case_option PNone PInt (ImageMetadata.height m)),
      (''upload_date'', PStr (isoformat (ImageMetadata.upload_date m))),
      (''mime_type'', PStr (ImageMetadata.mime_type m))]"
  by (simp add: isoformat_datetimes_def ImageMetadata_fields_def optional_def
        split: option.splits)

lemma ConversionJobResponse_fields_iso:
  "isoformat_datetimes [''created_at'', ''started_at'', ''completed_at'']
     (ConversionJobResponse_fields r) =
     [(''id'', PInt (ConversionJobResponse.id r)),
      (''source_image_id'', PInt (ConversionJobResponse.source_image_id r)),
      (''target_format'', PImageFormat (ConversionJobResponse.target_format r)),
      (''status'', PConversionStatus (ConversionJobResponse.status r)),
      (''quality'', case_option PNone PInt (ConversionJobResponse.quality r)),
      (''width'', case_option PNone PInt (ConversionJobResponse.width r)),
      (''height'', case_option PNone PInt (ConversionJobResponse.height r)),
      (''maintain_aspect_ratio'', PBool (ConversionJobResponse.maintain_aspect_ratio r)),
      (''created_at'', PStr (isoformat (ConversionJobResponse.created_at r))),
      (''started_at'',
         case_option PNone (\<lambda>t. PStr (isoformat t)) (ConversionJobResponse.started_at r)),
      (''completed_at'',
         case_option PNone (\<lambda>t. PStr (isoformat t)) (ConversionJobResponse.completed_at r)),
      (''error_message'', case_option PNone PStr (ConversionJobResponse.error_message r)),
      (''processing_time_seconds'',
         case_option PNone PDecimal (ConversionJobResponse.processing_time_seconds r))]"
  by (simp add: isoformat_datetimes_def ConversionJobResponse_fields_def optional_def
        split: option.splits)

lemma ConvertedImageResponse_fields_iso:
  "isoformat_datetimes [''created_at'', ''last_downloaded_at'', ''expires_at'']
     (ConvertedImageResponse_fields c) =
     [(''id'', PInt (ConvertedImageResponse.id c)),
      (''filename'', PStr (ConvertedImageResponse.filename c)),
      (''file_size'', PInt (ConvertedImageResponse.file_size c)),
      (''format'', PImageFormat (ConvertedImageResponse.format c)),
      (''width'', PInt (ConvertedImageResponse.width c)),
      (''height'', PInt (ConvertedImageResponse.height c)),
      (''quality_used'', case_option PNone PInt (ConvertedImageResponse.quality_used c)),
      (''created_at'', PStr (isoformat (ConvertedImageResponse.created_at c))),
      (''download_count'', PInt (ConvertedImageResponse.download_count c)),
      (''last_downloaded_at'',
         case_option PNone (\<lambda>t. PStr (isoformat t)) (ConvertedImageResponse.last_downloaded_at c)),
      (''expires_at'',
         case_option PNone (\<lambda>t. PStr (isoformat t)) (ConvertedImageResponse.expires_at c))]"
  by (simp add: isoformat_datetimes_def ConvertedImageResponse_fields_def optional_def
        split: option.splits)

text \<open>
  C10: for every \<^verbatim>\<open>ImageMetadata\<close>, \<^verbatim>\<open>ConversionJobResponse\<close> and
  \<^verbatim>\<open>ConvertedImageResponse\<close> and all keyword arguments, \<^verbatim>\<open>dict\<close> never raises and
  returns the fields of the object in their order, those that the keyword arguments
  \<^verbatim>\<open>include\<close>, \<^verbatim>\<open>exclude\<close> and \<^verbatim>\<open>exclude_none\<close> keep: under \<^verbatim>\<open>upload_date\<close>
  (respectively \<^verbatim>\<open>created_at\<close>, \<^verbatim>\<open>started_at\<close>, \<^verbatim>\<open>completed_at\<close>; \<^verbatim>\<open>created_at\<close>,
  \<^verbatim>\<open>last_downloaded_at\<close>, \<^verbatim>\<open>expires_at\<close>) the ISO-8601 string of the datetime, or
  \<^verbatim>\<open>None\<close> where the field is \<^verbatim>\<open>None\<close>, and under every other key the value of the
  field as it is.
\<close>

theorem dict_isoformat_datetimes:
  "(let kept = filter (\<lambda>(k, v).
                 (case include_keys kw of None \<Rightarrow> True | Some ks \<Rightarrow> k \<in> set ks) \<and>
                 (case exclude_keys kw of None \<Rightarrow> True | Some ks \<Rightarrow> k \<notin> set ks) \<and>
                 \<not> (exclude_none kw \<and> v = PNone));
        iso = case_option PNone (\<lambda>t. PStr (isoformat t))
    in
      ImageMetadata_dict kw m = Inr (kept
        [(''id'', PInt (ImageMetadata.id m)),
         (''filename'', PStr (ImageMetadata.filename m)),
         (''file_size'', PInt (ImageMetadata.file_size m)),
         (''format'', PImageFormat (ImageMetadata.format m)),
         (''width'', case_option PNone PInt (ImageMetadata.width m)),
         (''height'', case_option PNone PInt (ImageMetadata.height m)),
         (''upload_date'', PStr (isoformat (ImageMetadata.upload_date m))),
         (''mime_type'', PStr (ImageMetadata.mime_type m))]) \<and>
      ConversionJobResponse_dict kw r = Inr (kept
        [(''id'', PInt (ConversionJobResponse.id r)),
         (''source_image_id'', PInt (ConversionJobResponse.source_image_id r)),
         (''target_format'', PImageFormat (ConversionJobResponse.target_format r)),
         (''status'', PConversionStatus (ConversionJobResponse.status r)),
         (''quality'', case_option PNone PInt (ConversionJobResponse.quality r)),
         (''width'', case_option PNone PInt (ConversionJobResponse.width r)),
         (''height'', case_option PNone PInt (ConversionJobResponse.height r)),
         (''maintain_aspect_ratio'', PBool (ConversionJobResponse.maintain_aspect_ratio r)),
         (''created_at'', PStr (isoformat (ConversionJobResponse.created_at r))),
         (''started_at'', iso (ConversionJobResponse.started_at r)),
         (''completed_at'', iso (ConversionJobResponse.completed_at r)),
         (''error_message'', case_option PNone PStr (ConversionJobResponse.error_message r)),
         (''processing_time_seconds'',
            case_option PNone PDecimal (ConversionJobResponse.processing_time_seconds r))]) \<and>
      ConvertedImageResponse_dict kw c = Inr (kept
        [(''id'', PInt (ConvertedImageResponse.id c)),
         (''filename'', PStr (ConvertedImageResponse.filename c)),
         (''file_size'', PInt (ConvertedImageResponse.file_size c)),
         (''format'', PImageFormat (ConvertedImageResponse.format c)),
         (''width'', PInt (ConvertedImageResponse.width c)),
         (''height'', PInt (ConvertedImageResponse.height c)),
         (''quality_used'', case_option PNone PInt (ConvertedImageResponse.quality_used c)),
         (''created_at'', PStr (isoformat (ConvertedImageResponse.created_at c))),
         (''download_count'', PInt (ConvertedImageResponse.download_count c)),
         (''last_downloaded_at'', iso (ConvertedImageResponse.last_downloaded_at c)),
         (''expires_at'', iso (ConvertedImageResponse.expires_at c))]))"
  unfolding Let_def ImageMetadata_dict_eq ConversionJobResponse_dict_eq
    ConvertedImageResponse_dict_eq
  unfolding isoformat_datetimes_SQLModel_dict
  unfolding ImageMetadata_fields_iso ConversionJobResponse_fields_iso
    ConvertedImageResponse_fields_iso
  unfolding SQLModel_dict_def
  by (intro conjI refl)

lemma iso_t0: "isoformat t0 = ''2024-01-02T03:04:05''"
  by (simp add: isoformat_def t0_def zero_pad_def digit_char_def)

lemma iso_t1: "isoformat t1 = ''2024-01-02T03:04:07.250000''"
  by (simp add: isoformat_def t1_def zero_pad_def digit_char_def)

theorem dict_isoformat_datetimes_witness:
  "ImageMetadata_dict no_kwargs example_metadata =
     Inr [(''id'', PInt 1), (''filename'', PStr ''a.png''), (''file_size'', PInt 10),
          (''format'', PImageFormat PNG), (''width'', PInt 4), (''height'', PNone),
          (''upload_date'', PStr ''2024-01-02T03:04:05''), (''mime_type'', PStr ''image/png'')] \<and>
   ConversionJobResponse_dict no_kwargs example_job_response =
     Inr [(''id'', PInt 7), (''source_image_id'', PInt 1),
          (''target_format'', PImageFormat WEBP), (''status'', PConversionStatus PROCESSING),
          (''quality'', PInt 80), (''width'', PNone), (''height'', PNone),
          (''maintain_aspect_ratio'', PBool True),
          (''created_at'', PStr ''2024-01-02T03:04:05''),
          (''started_at'', PStr ''2024-01-02T03:04:07.250000''),
          (''completed_at'', PNone), (''error_message'', PNone),
          (''processing_time_seconds'', PNone)] \<and>
   ConvertedImageResponse_dict no_kwargs example_converted_response =
     Inr [(''id'', PInt 3), (''filename'', PStr ''a.webp''), (''file_size'', PInt 10),
          (''format'', PImageFormat WEBP), (''width'', PInt 960), (''height'', PInt 720),
          (''quality_used'', PNone), (''created_at'', PStr ''2024-01-02T03:04:05''),
          (''download_count'', PInt 2),
          (''last_downloaded_at'', PStr ''2024-01-02T03:04:07.250000''),
          (''expires_at'', PNone)] \<and>
   ConversionJobResponse_dict
       (no_kwargs\<lparr>include_keys := Some [''status'', ''created_at'', ''started_at'', ''completed_at'']\<rparr>)
       example_job_response =
     Inr [(''status'', PConversionStatus PROCESSING),
          (''created_at'', PStr ''2024-01-02T03:04:05''),
          (''started_at'', PStr ''2024-01-02T03:04:07.250000''),
          (''completed_at'', PNone)] \<and>
   ConvertedImageResponse_dict
       (no_kwargs\<lparr>exclude_keys := Some [''id'', ''filename'', ''file_size'', ''format''],
                  exclude_none := True\<rparr>)
       example_converted_response =
     Inr [(''width'', PInt 960), (''height'', PInt 720),
          (''created_at'', PStr ''2024-01-02T03:04:05''),
          (''download_count'', PInt 2),
          (''last_downloaded_at'', PStr ''2024-01-02T03:04:07.250000'')]"
  using dict_isoformat_datetimes
      [where kw = no_kwargs and m = example_metadata and r = example_job_response
         and c = example_converted_response]
    dict_isoformat_datetimes
      [where kw = "no_kwargs\<lparr>include_keys := Some [''status'', ''created_at'', ''started_at'', ''completed_at'']\<rparr>"
         and r = example_job_response]
    dict_isoformat_datetimes
      [where kw = "no_kwargs\<lparr>exclude_keys := Some [''id'', ''filename'', ''file_size'', ''format''],
                              exclude_none := True\<rparr>"
         and c = example_converted_response]
  by (simp add: Let_def no_kwargs_def example_metadata_def example_job_response_def
        example_converted_response_def iso_t0 iso_t1)

section \<open>The column constraints hold in every store\<close>

lemma fold_max_ge:
  "m \<le> fold (\<lambda>i m. case i of None \<Rightarrow> m | Some n \<Rightarrow> max n m) ids (m :: int)"
proof (induction ids arbitrary: m)
  case Nil
  show ?case by simp
next
  case (Cons i ids)
  show ?case
  proof (cases i)
    case None
    with Cons show ?thesis by simp
  next
    case (Some n)
    have "m \<le> max n m" by simp
    also have "\<dots> \<le> fold (\<lambda>i m. case i of None \<Rightarrow> m | Some n \<Rightarrow> max n m) ids (max n m)"
      by (rule Cons.IH)
    finally show ?thesis using Some by simp
  qed
qed

lemma fold_max_bound:
  "Some n \<in> set ids \<Longrightarrow>
     n \<le> fold (\<lambda>i m. case i of None \<Rightarrow> m | Some n \<Rightarrow> max n m) ids (m :: int)"
proof (induction ids arbitrary: m)
  case Nil
  then show ?case by simp
next
  case (Cons i ids)
  show ?case
  proof (cases "i = Some n")
    case True
    have "n \<le> max n m" by simp
    also have "\<dots> \<le> fold (\<lambda>i m. case i of None \<Rightarrow> m | Some n \<Rightarrow> max n m) ids (max n m)"
      by (rule fold_max_ge)
    finally show ?thesis using True by simp
  next
    case False
    with Cons.prems have "Some n \<in> set ids" by simp
    then show ?thesis using Cons.IH by simp
  qed
qed

lemma next_id_fresh: "Some (next_id ids) \<notin> set ids"
proof
  assume "Some (next_id ids) \<in> set ids"
  then have "next_id ids \<le> fold (\<lambda>i m. case i of None \<Rightarrow> m | Some n \<Rightarrow> max n m) ids 0"
    by (rule fold_max_bound)
  then show False by (simp add: next_id_def)
qed

lemma primary_key_fresh: "primary_key ids i = Inr n \<Longrightarrow> Some n \<notin> set ids"
  using next_id_fresh [of ids]
  by (auto simp: primary_key_def split: option.splits if_splits)

text \<open>Writing a row back under its key.\<close>

lemma map_key_replace:
  "map k (map (\<lambda>x. if k x = k r then r else x) xs) = map k xs"
  by (induction xs) auto

lemma list_all_replace:
  "list_all P xs \<Longrightarrow> P r \<Longrightarrow> list_all P (map (\<lambda>x. if k x = k r then r else x) xs)"
  by (induction xs) auto

lemma unique_replace:
  assumes "distinct (map k xs)" and "distinct (map u xs)"
    and "u r \<notin> set (map u (filter (\<lambda>x. k x \<noteq> k r) xs))"
  shows "distinct (map u (map (\<lambda>x. if k x = k r then r else x) xs))"
  using assms
proof (induction xs)
  case Nil
  then show ?case by simp
next
  case (Cons x xs)
  let ?f = "\<lambda>x. if k x = k r then r else x"
  have ih: "distinct (map u (map ?f xs))"
    using Cons by (auto split: if_splits)
  show ?case
  proof (cases "k x = k r")
    case True
    with Cons.prems(1) have notin: "k r \<notin> set (map k xs)" by simp
    then have same: "map ?f xs = xs"
      by (induction xs) auto
    from notin have "filter (\<lambda>x. k x \<noteq> k r) xs = xs"
      by (induction xs) auto
    with Cons.prems(3) True have "u r \<notin> set (map u xs)" by simp
    with True same Cons.prems(2) show ?thesis by simp
  next
    case False
    have "u x \<notin> set (map u (map ?f xs))"
    proof
      assume "u x \<in> set (map u (map ?f xs))"
      then obtain y where y: "y \<in> set xs" "u x = u (?f y)" by auto
      show False
      proof (cases "k y = k r")
        case True
        with y have "u x = u r" by simp
        with Cons.prems(3) False show False by simp
      next
        case False
        with y have "u x = u y" by simp
        with y(1) Cons.prems(2) show False by auto
      qed
    qed
    with ih False show ?thesis by simp
  qed
qed

lemmas consistent_defs =
  consistent_def users_consistent_def uploaded_images_consistent_def
  conversion_jobs_consistent_def converted_images_consistent_def

lemma consistent_empty: "consistent empty_store"
  by (simp add: consistent_defs empty_store_def)

lemma list_all_nullable_mono:
  "list_all (\<lambda>x. nullable_foreign_key ids (f x)) xs \<Longrightarrow>
     list_all (\<lambda>x. nullable_foreign_key (ids @ [i]) (f x)) xs"
  by (auto simp: list_all_iff nullable_foreign_key_def foreign_key_def split: option.splits)

lemma list_all_foreign_mono:
  "list_all (\<lambda>x. foreign_key ids (f x)) xs \<Longrightarrow>
     list_all (\<lambda>x. foreign_key (ids @ [i]) (f x)) xs"
  by (auto simp: list_all_iff foreign_key_def)

lemma list_all_conj:
  "list_all (\<lambda>x. P x \<and> Q x) xs \<longleftrightarrow> list_all P xs \<and> list_all Q xs"
  by (auto simp: list_all_iff)

lemma add_User_consistent:
  assumes "consistent s" and "add_User s u = Inr s'"
  shows "consistent s'"
proof -
  from assms(2) obtain n where
    n: "primary_key (map User.id (users s)) (User.id u) = Inr n"
    and e: "email u \<notin> set (map email (users s))"
    and s': "s' = s\<lparr>users := users s @ [u\<lparr>User.id := Some n\<rparr>]\<rparr>"
    by (auto simp: add_User_def split: sum.splits if_splits)
  from n have fresh: "Some n \<notin> set (map User.id (users s))"
    by (rule primary_key_fresh)
  from assms(1) fresh e show ?thesis
    unfolding s' consistent_defs
    by (simp add: list_all_conj list_all_nullable_mono)
qed

lemma add_UploadedImage_consistent:
  assumes "consistent s" and "add_UploadedImage s i = Inr s'"
  shows "consistent s'"
proof -
  from assms(2) obtain n where
    n: "primary_key (map UploadedImage.id (uploaded_images s)) (UploadedImage.id i) = Inr n"
    and fk: "nullable_foreign_key (map User.id (users s)) (UploadedImage.user_id i)"
    and s': "s' = s\<lparr>uploaded_images := uploaded_images s @ [i\<lparr>UploadedImage.id := Some n\<rparr>]\<rparr>"
    by (auto simp: add_UploadedImage_def split: sum.splits if_splits)
  from n have fresh: "Some n \<notin> set (map UploadedImage.id (uploaded_images s))"
    by (rule primary_key_fresh)
  from assms(1) fresh fk show ?thesis
    unfolding s' consistent_defs
    by (simp add: list_all_conj list_all_foreign_mono)
qed

lemma add_ConversionJob_consistent:
  assumes "consistent s" and "add_ConversionJob s j = Inr s'"
  shows "consistent s'"
proof -
  from assms(2) obtain n where
    n: "primary_key (map ConversionJob.id (conversion_jobs s)) (ConversionJob.id j) = Inr n"
    and fk: "nullable_foreign_key (map User.id (users s)) (ConversionJob.user_id j)"
      "foreign_key (map UploadedImage.id (uploaded_images s)) (ConversionJob.source_image_id j)"
    and s': "s' = s\<lparr>conversion_jobs := conversion_jobs s @ [j\<lparr>ConversionJob.id := Some n\<rparr>]\<rparr>"
    by (auto simp: add_ConversionJob_def split: sum.splits if_splits)
  from n have fresh: "Some n \<notin> set (map ConversionJob.id (conversion_jobs s))"
    by (rule primary_key_fresh)
  from assms(1) fresh fk show ?thesis
    unfolding s' consistent_defs
    by (simp add: list_all_conj list_all_foreign_mono)
qed

lemma add_ConvertedImage_consistent:
  assumes "consistent s" and "add_ConvertedImage s c = Inr s'"
  shows "consistent s'"
proof -
  from assms(2) obtain n where
    n: "primary_key (map ConvertedImage.id (converted_images s)) (ConvertedImage.id c) = Inr n"
    and fk: "foreign_key (map ConversionJob.id (conversion_jobs s)) (ConvertedImage.conversion_job_id c)"
    and u: "ConvertedImage.conversion_job_id c
              \<notin> set (map ConvertedImage.conversion_job_id (converted_images s))"
    and s': "s' = s\<lparr>converted_images := converted_images s @ [c\<lparr>ConvertedImage.id := Some n\<rparr>]\<rparr>"
    by (auto simp: add_ConvertedImage_def split: sum.splits if_splits)
  from n have fresh: "Some n \<notin> set (map ConvertedImage.id (converted_images s))"
    by (rule primary_key_fresh)
  from assms(1) fresh fk u show ?thesis
    unfolding s' consistent_defs
    by simp
qed

lemma update_User_consistent:
  assumes "consistent s" and "update_User s u = Inr s'"
  shows "consistent s'"
proof -
  let ?f = "\<lambda>x. if User.id x = User.id u then u else x"
  from assms(2) have
    e: "email u \<notin> set (map email (filter (\<lambda>x. User.id x \<noteq> User.id u) (users s)))"
    and s': "s' = s\<lparr>users := map ?f (users s)\<rparr>"
    by (auto simp: update_User_def split: if_splits)
  have ids: "map User.id (map ?f (users s)) = map User.id (users s)"
    by (rule map_key_replace)
  from assms(1) have "distinct (map User.id (users s))" "distinct (map email (users s))"
    by (simp_all add: consistent_defs)
  then have "distinct (map email (map ?f (users s)))"
    using e by (rule unique_replace)
  with assms(1) ids show ?thesis
    unfolding s' consistent_defs by (simp del: map_map)
qed

lemma update_UploadedImage_consistent:
  assumes "consistent s" and "update_UploadedImage s i = Inr s'"
  shows "consistent s'"
proof -
  let ?f = "\<lambda>x. if UploadedImage.id x = UploadedImage.id i then i else x"
  from assms(2) have
    fk: "nullable_foreign_key (map User.id (users s)) (UploadedImage.user_id i)"
    and s': "s' = s\<lparr>uploaded_images := map ?f (uploaded_images s)\<rparr>"
    by (auto simp: update_UploadedImage_def split: if_splits)
  have ids: "map UploadedImage.id (map ?f (uploaded_images s)) = map UploadedImage.id (uploaded_images s)"
    by (rule map_key_replace)
  from assms(1) fk have
    "list_all (\<lambda>i. nullable_foreign_key (map User.id (users s)) (UploadedImage.user_id i))
       (map ?f (uploaded_images s))"
    by (intro list_all_replace) (simp_all add: consistent_defs)
  with assms(1) ids show ?thesis
    unfolding s' consistent_defs by (simp del: map_map)
qed

lemma update_ConversionJob_consistent:
  assumes "consistent s" and "update_ConversionJob s j = Inr s'"
  shows "consistent s'"
proof -
  let ?f = "\<lambda>x. if ConversionJob.id x = ConversionJob.id j then j else x"
  from assms(2) have
    fk: "nullable_foreign_key (map User.id (users s)) (ConversionJob.user_id j) \<and>
         foreign_key (map UploadedImage.id (uploaded_images s)) (ConversionJob.source_image_id j)"
    and s': "s' = s\<lparr>conversion_jobs := map ?f (conversion_jobs s)\<rparr>"
    by (auto simp: update_ConversionJob_def split: if_splits)
  have ids: "map ConversionJob.id (map ?f (conversion_jobs s)) = map ConversionJob.id (conversion_jobs s)"
    by (rule map_key_replace)
  from assms(1) fk have
    "list_all (\<lambda>j. nullable_foreign_key (map User.id (users s)) (ConversionJob.user_id j) \<and>
                   foreign_key (map UploadedImage.id (uploaded_images s))
                     (ConversionJob.source_image_id j))
       (map ?f (conversion_jobs s))"
    by (intro list_all_replace) (simp_all add: consistent_defs)
  with assms(1) ids show ?thesis
    unfolding s' consistent_defs by (simp del: map_map)
qed

lemma update_ConvertedImage_consistent:
  assumes "consistent s" and "update_ConvertedImage s c = Inr s'"
  shows "consistent s'"
proof -
  let ?f = "\<lambda>x. if ConvertedImage.id x = ConvertedImage.id c then c else x"
  from assms(2) have
    fk: "foreign_key (map ConversionJob.id (conversion_jobs s)) (ConvertedImage.conversion_job_id c)"
    and u: "ConvertedImage.conversion_job_id c
              \<notin> set (map ConvertedImage.conversion_job_id
                       (filter (\<lambda>x. ConvertedImage.id x \<noteq> ConvertedImage.id c) (converted_images s)))"
    and s': "s' = s\<lparr>converted_images := map ?f (converted_images s)\<rparr>"
    by (auto simp: update_ConvertedImage_def split: if_splits)
  have ids: "map ConvertedImage.id (map ?f (converted_images s)) = map ConvertedImage.id (converted_images s)"
    by (rule map_key_replace)
  from assms(1) have "distinct (map ConvertedImage.id (converted_images s))"
    "distinct (map ConvertedImage.conversion_job_id (converted_images s))"
    by (simp_all add: consistent_defs)
  then have un: "distinct (map ConvertedImage.conversion_job_id (map ?f (converted_images s)))"
    using u by (rule unique_replace)
  from assms(1) fk have
    "list_all (\<lambda>c. foreign_key (map ConversionJob.id (conversion_jobs s))
                     (ConvertedImage.conversion_job_id c))
       (map ?f (converted_images s))"
    by (intro list_all_replace) (simp_all add: consistent_defs)
  with assms(1) ids un show ?thesis
    unfolding s' consistent_defs by (simp del: map_map)
qed

lemma reachable_consistent: "reachable s \<Longrightarrow> consistent s"
proof (induction rule: reachable.induct)
  case empty
  show ?case by (rule consistent_empty)
qed (blast intro: add_User_consistent add_UploadedImage_consistent add_ConversionJob_consistent
       add_ConvertedImage_consistent update_User_consistent update_UploadedImage_consistent
       update_ConversionJob_consistent update_ConvertedImage_consistent)+

lemma reachable_image_store: "reachable image_store"
proof -
  have "add_UploadedImage empty_store example_image = Inr image_store"
    by (simp add: add_UploadedImage_def primary_key_def next_id_def nullable_foreign_key_def
          empty_store_def example_image_def image_store_def)
  with reachable.empty show ?thesis by (rule reachable.add_image)
qed

lemma reachable_job_store: "reachable job_store"
proof -
  have "add_ConversionJob image_store (ConversionJob_new t0 1 WEBP) = Inr job_store"
    by (simp add: add_ConversionJob_def primary_key_def next_id_def nullable_foreign_key_def
          foreign_key_def image_store_def empty_store_def ConversionJob_new_def job_store_def)
  with reachable_image_store show ?thesis by (rule reachable.add_job)
qed

lemma reachable_example_store: "reachable example_store"
proof -
  have "add_ConvertedImage job_store example_converted = Inr example_store"
    by (simp add: add_ConvertedImage_def primary_key_def next_id_def foreign_key_def
          job_store_def image_store_def empty_store_def example_converted_def
          ConvertedImage_new_def example_store_def)
  with reachable_job_store show ?thesis by (rule reachable.add_converted)
qed

lemma unique_row:
  assumes "distinct (map k xs)" and "Some r \<in> set (map k xs)"
  shows "\<exists>!x. x \<in> set xs \<and> k x = Some r"
proof -
  from assms(2) obtain x where x: "x \<in> set xs" "k x = Some r" by auto
  from assms(1) have inj: "inj_on k (set xs)" by (simp add: distinct_map)
  show ?thesis
  proof (rule ex1I [of _ x])
    from x show "x \<in> set xs \<and> k x = Some r" by simp
  next
    fix y assume "y \<in> set xs \<and> k y = Some r"
    with x have "k y = k x" "y \<in> set xs" by simp_all
    with inj x(1) show "y = x" by (auto dest: inj_onD)
  qed
qed

lemma find_key_Some:
  "Some r \<in> set (map k xs) \<Longrightarrow> find (\<lambda>x. k x = Some r) xs \<noteq> None"
  by (auto simp: find_None_iff)

text \<open>
  C9: in every store the database's statements can build, each conversion job
  references exactly one uploaded image through \<^verbatim>\<open>source_image_id\<close>, which is not
  nullable: the image exists, it is the only row with that id, and a job whose
  \<^verbatim>\<open>source_image_id\<close> names no image is rejected. The reference to the owning user is
  nullable: a job with \<^verbatim>\<open>user_id = None\<close> is accepted.
\<close>

theorem job_references_exactly_one_image:
  "reachable s \<Longrightarrow>
     (\<forall>j \<in> set (conversion_jobs s).
        (\<exists>!i. i \<in> set (uploaded_images s) \<and>
               UploadedImage.id i = Some (ConversionJob.source_image_id j)) \<and>
        source_image s j \<noteq> None) \<and>
     (\<forall>j s'. add_ConversionJob s j = Inr s' \<longrightarrow>
        foreign_key (map UploadedImage.id (uploaded_images s)) (ConversionJob.source_image_id j)) \<and>
     (\<forall>j. ConversionJob.id j = None \<and> ConversionJob.user_id j = None \<and>
          foreign_key (map UploadedImage.id (uploaded_images s)) (ConversionJob.source_image_id j)
        \<longrightarrow> (\<exists>s'. add_ConversionJob s j = Inr s' \<and> reachable s'))"
proof -
  assume r: "reachable s"
  then have c: "consistent s" by (rule reachable_consistent)
  have a: "\<forall>j \<in> set (conversion_jobs s).
        (\<exists>!i. i \<in> set (uploaded_images s) \<and>
               UploadedImage.id i = Some (ConversionJob.source_image_id j)) \<and>
        source_image s j \<noteq> None"
  proof
    fix j assume "j \<in> set (conversion_jobs s)"
    with c have fk: "Some (ConversionJob.source_image_id j) \<in> set (map UploadedImage.id (uploaded_images s))"
      by (auto simp: consistent_defs list_all_iff foreign_key_def)
    from c have d: "distinct (map UploadedImage.id (uploaded_images s))"
      by (simp add: consistent_defs)
    from d fk have "\<exists>!i. i \<in> set (uploaded_images s) \<and>
               UploadedImage.id i = Some (ConversionJob.source_image_id j)"
      by (rule unique_row)
    moreover from fk have "source_image s j \<noteq> None"
      unfolding source_image_def by (rule find_key_Some)
    ultimately show "(\<exists>!i. i \<in> set (uploaded_images s) \<and>
               UploadedImage.id i = Some (ConversionJob.source_image_id j)) \<and>
        source_image s j \<noteq> None" by simp
  qed
  have b: "\<forall>j s'. add_ConversionJob s j = Inr s' \<longrightarrow>
        foreign_key (map UploadedImage.id (uploaded_images s)) (ConversionJob.source_image_id j)"
    by (auto simp: add_ConversionJob_def split: sum.splits if_splits)
  have n: "\<forall>j. ConversionJob.id j = None \<and> ConversionJob.user_id j = None \<and>
          foreign_key (map UploadedImage.id (uploaded_images s)) (ConversionJob.source_image_id j)
        \<longrightarrow> (\<exists>s'. add_ConversionJob s j = Inr s' \<and> reachable s')"
  proof (intro allI impI)
    fix j :: ConversionJob
    assume "ConversionJob.id j = None \<and> ConversionJob.user_id j = None \<and>
          foreign_key (map UploadedImage.id (uploaded_images s)) (ConversionJob.source_image_id j)"
    then have "\<exists>s'. add_ConversionJob s j = Inr s'"
      by (simp add: add_ConversionJob_def primary_key_def nullable_foreign_key_def)
    with r show "\<exists>s'. add_ConversionJob s j = Inr s' \<and> reachable s'"
      by (blast intro: reachable.add_job)
  qed
  from a b n show ?thesis by blast
qed

theorem job_references_exactly_one_image_witness:
  "reachable example_store \<and>
   (\<exists>!i. i \<in> set (uploaded_images example_store) \<and> UploadedImage.id i = Some 1) \<and>
   source_image example_store ((ConversionJob_new t0 1 WEBP)\<lparr>ConversionJob.id := Some 1\<rparr>)
     = Some (example_image\<lparr>UploadedImage.id := Some 1\<rparr>) \<and>
   ConversionJob.user_id ((ConversionJob_new t0 1 WEBP)\<lparr>ConversionJob.id := Some 1\<rparr>) = None \<and>
   (\<exists>s'. add_ConversionJob example_store (ConversionJob_new t0 1 PNG) = Inr s' \<and> reachable s') \<and>
   add_ConversionJob example_store (ConversionJob_new t0 2 PNG) = Inl IntegrityError"
proof -
  let ?j = "(ConversionJob_new t0 1 WEBP)\<lparr>ConversionJob.id := Some 1\<rparr>"
  note th = job_references_exactly_one_image [OF reachable_example_store]
  have j: "?j \<in> set (conversion_jobs example_store)"
    by (simp add: example_store_def)
  from th j have "\<exists>!i. i \<in> set (uploaded_images example_store) \<and>
      UploadedImage.id i = Some (ConversionJob.source_image_id ?j)"
    by blast
  then have 1: "\<exists>!i. i \<in> set (uploaded_images example_store) \<and> UploadedImage.id i = Some 1"
    by (simp add: ConversionJob_new_def)
  have 2: "source_image example_store ?j = Some (example_image\<lparr>UploadedImage.id := Some 1\<rparr>)"
    by (simp add: source_image_def example_store_def ConversionJob_new_def)
  have "ConversionJob.id (ConversionJob_new t0 1 PNG) = None \<and>
        ConversionJob.user_id (ConversionJob_new t0 1 PNG) = None \<and>
        foreign_key (map UploadedImage.id (uploaded_images example_store))
          (ConversionJob.source_image_id (ConversionJob_new t0 1 PNG))"
    by (simp add: ConversionJob_new_def foreign_key_def example_store_def)
  with th have 3: "\<exists>s'. add_ConversionJob example_store (ConversionJob_new t0 1 PNG) = Inr s' \<and> reachable s'"
    by blast
  have 4: "add_ConversionJob example_store (ConversionJob_new t0 2 PNG) = Inl IntegrityError"
    by (simp add: add_ConversionJob_def primary_key_def nullable_foreign_key_def
          foreign_key_def example_store_def ConversionJob_new_def)
  from reachable_example_store 1 2 3 4 show ?thesis
    by (simp add: ConversionJob_new_def)
qed

text \<open>
  C5: in every store the database's statements can build, each converted image is the
  artifact of exactly one conversion job (its \<^verbatim>\<open>conversion_job_id\<close> is not nullable and
  is the id of exactly one job), and no two converted images share a job: the column
  is unique, and a second converted image for a job is rejected.
\<close>

theorem converted_image_of_exactly_one_job:
  "reachable s \<Longrightarrow>
     (\<forall>c \<in> set (converted_images s).
        (\<exists>!j. j \<in> set (conversion_jobs s) \<and>
               ConversionJob.id j = Some (ConvertedImage.conversion_job_id c)) \<and>
        conversion_job s c \<noteq> None) \<and>
     (\<forall>c \<in> set (converted_images s). \<forall>c' \<in> set (converted_images s).
        ConvertedImage.conversion_job_id c = ConvertedImage.conversion_job_id c' \<longrightarrow> c = c') \<and>
     (\<forall>c s'. add_ConvertedImage s c = Inr s' \<longrightarrow>
        foreign_key (map ConversionJob.id (conversion_jobs s)) (ConvertedImage.conversion_job_id c) \<and>
        ConvertedImage.conversion_job_id c
          \<notin> set (map ConvertedImage.conversion_job_id (converted_images s)))"
proof -
  assume r: "reachable s"
  then have c: "consistent s" by (rule reachable_consistent)
  have a: "\<forall>c \<in> set (converted_images s).
        (\<exists>!j. j \<in> set (conversion_jobs s) \<and>
               ConversionJob.id j = Some (ConvertedImage.conversion_job_id c)) \<and>
        conversion_job s c \<noteq> None"
  proof
    fix x assume "x \<in> set (converted_images s)"
    with c have fk: "Some (ConvertedImage.conversion_job_id x) \<in> set (map ConversionJob.id (conversion_jobs s))"
      by (auto simp: consistent_defs list_all_iff foreign_key_def)
    from c have d: "distinct (map ConversionJob.id (conversion_jobs s))"
      by (simp add: consistent_defs)
    from d fk have "\<exists>!j. j \<in> set (conversion_jobs s) \<and>
               ConversionJob.id j = Some (ConvertedImage.conversion_job_id x)"
      by (rule unique_row)
    moreover from fk have "conversion_job s x \<noteq> None"
      unfolding conversion_job_def by (rule find_key_Some)
    ultimately show "(\<exists>!j. j \<in> set (conversion_jobs s) \<and>
               ConversionJob.id j = Some (ConvertedImage.conversion_job_id x)) \<and>
        conversion_job s x \<noteq> None" by simp
  qed
  from c have "inj_on ConvertedImage.conversion_job_id (set (converted_images s))"
    by (simp add: consistent_defs distinct_map)
  then have b: "\<forall>c \<in> set (converted_images s). \<forall>c' \<in> set (converted_images s).
        ConvertedImage.conversion_job_id c = ConvertedImage.conversion_job_id c' \<longrightarrow> c = c'"
    by (auto dest: inj_onD)
  have n: "\<forall>c s'. add_ConvertedImage s c = Inr s' \<longrightarrow>
        foreign_key (map ConversionJob.id (conversion_jobs s)) (ConvertedImage.conversion_job_id c) \<and>
        ConvertedImage.conversion_job_id c
          \<notin> set (map ConvertedImage.conversion_job_id (converted_images s))"
    by (auto simp: add_ConvertedImage_def split: sum.splits if_splits)
  from a b n show ?thesis by blast
qed

theorem converted_image_of_exactly_one_job_witness:
  "reachable example_store \<and>
   (\<exists>!j. j \<in> set (conversion_jobs example_store) \<and> ConversionJob.id j = Some 1) \<and>
   conversion_job example_store (example_converted\<lparr>ConvertedImage.id := Some 1\<rparr>)
     = Some ((ConversionJob_new t0 1 WEBP)\<lparr>ConversionJob.id := Some 1\<rparr>) \<and>
   add_ConvertedImage example_store example_converted = Inl IntegrityError \<and>
   add_ConvertedImage example_store (example_converted\<lparr>ConvertedImage.conversion_job_id := 2\<rparr>)
     = Inl IntegrityError"
proof -
  let ?c = "example_converted\<lparr>ConvertedImage.id := Some 1\<rparr>"
  note th = converted_image_of_exactly_one_job [OF reachable_example_store]
  have m: "?c \<in> set (converted_images example_store)"
    by (simp add: example_store_def)
  from th m have "\<exists>!j. j \<in> set (conversion_jobs example_store) \<and>
      ConversionJob.id j = Some (ConvertedImage.conversion_job_id ?c)"
    by blast
  then have 1: "\<exists>!j. j \<in> set (conversion_jobs example_store) \<and> ConversionJob.id j = Some 1"
    by (simp add: example_converted_def ConvertedImage_new_def)
  have 2: "conversion_job example_store ?c
     = Some ((ConversionJob_new t0 1 WEBP)\<lparr>ConversionJob.id := Some 1\<rparr>)"
    by (simp add: conversion_job_def example_store_def example_converted_def ConvertedImage_new_def)
  have 3: "add_ConvertedImage example_store example_converted = Inl IntegrityError"
    by (simp add: add_ConvertedImage_def primary_key_def next_id_def foreign_key_def
          example_store_def example_converted_def ConvertedImage_new_def)
  have 4: "add_ConvertedImage example_store (example_converted\<lparr>ConvertedImage.conversion_job_id := 2\<rparr>)
     = Inl IntegrityError"
    by (simp add: add_ConvertedImage_def primary_key_def next_id_def foreign_key_def
          example_store_def example_converted_def ConvertedImage_new_def)
  from reachable_example_store 1 2 3 4 show ?thesis by simp
qed

section \<open>What the table classes do not check\<close>




text \<open>
  C6, as amended: the \<^verbatim>\<open>ConvertedImageCreate\<close> schema accepts an input exactly when its
  file size, width and height are at least 0, its \<^verbatim>\<open>quality_used\<close> is in [1,100]
  whenever it is present, and its strings are within their lengths; and a
  \<^verbatim>\<open>ConvertedImage\<close> constructed from the fields of an accepted input, the download count
  left at its default, has a width and a height of at least 0, a \<^verbatim>\<open>quality_used\<close> in
  [1,100] whenever it is present, and the download count 0.
\<close>

theorem ConvertedImage_bounds:
  "((\<exists>a'. ConvertedImageCreate_validate a = Inr a') =
      (length (ConvertedImageCreate.filename a) \<le> 255 \<and>
       length (ConvertedImageCreate.file_path a) \<le> 500 \<and>
       0 \<le> ConvertedImageCreate.file_size a \<and>
       length (ConvertedImageCreate.mime_type a) \<le> 100 \<and>
       0 \<le> ConvertedImageCreate.width a \<and>
       0 \<le> ConvertedImageCreate.height a \<and>
       (case ConvertedImageCreate.quality_used a of None \<Rightarrow> True | Some q \<Rightarrow> 1 \<le> q \<and> q \<le> 100))) \<and>
   (ConvertedImageCreate_validate a = Inr a' \<longrightarrow>
      a' = a \<and>
      (let c = (ConvertedImage_new now (ConvertedImageCreate.conversion_job_id a')
                  (ConvertedImageCreate.filename a') (ConvertedImageCreate.file_path a')
                  (ConvertedImageCreate.file_size a') (ConvertedImageCreate.mime_type a')
                  (ConvertedImageCreate.format a') (ConvertedImageCreate.width a')
                  (ConvertedImageCreate.height a'))
                \<lparr>ConvertedImage.quality_used := ConvertedImageCreate.quality_used a',
                 ConvertedImage.expires_at := ConvertedImageCreate.expires_at a'\<rparr>
       in 0 \<le> ConvertedImage.width c \<and> 0 \<le> ConvertedImage.height c \<and>
          (case ConvertedImage.quality_used c of None \<Rightarrow> True | Some q \<Rightarrow> 1 \<le> q \<and> q \<le> 100) \<and>
          ConvertedImage.download_count c = 0))"
  by (auto simp: ConvertedImageCreate_validate_def ConvertedImageCreate_constraints_def
        in_range_def ConvertedImage_new_def Let_def split: option.splits if_splits)

theorem ConvertedImage_bounds_witness:
  "ConvertedImageCreate_validate example_artifact = Inr example_artifact \<and>
   ConvertedImageCreate.width example_artifact = 960 \<and>
   ConvertedImageCreate.height example_artifact = 720 \<and>
   ConvertedImageCreate.quality_used example_artifact = Some 80 \<and>
   ConvertedImage.download_count
     (ConvertedImage_new t0 1 ''a.webp'' ''/out/a.webp'' 10 ''image/webp'' WEBP 960 720) = 0 \<and>
   ConvertedImageCreate_validate (example_artifact\<lparr>ConvertedImageCreate.width := - 1\<rparr>)
     = Inl ValidationError \<and>
   ConvertedImageCreate_validate (example_artifact\<lparr>ConvertedImageCreate.quality_used := Some 0\<rparr>)
     = Inl ValidationError"
proof -
  have v: "ConvertedImageCreate_validate example_artifact = Inr example_artifact"
    by (simp add: ConvertedImageCreate_validate_def ConvertedImageCreate_constraints_def
          in_range_def example_artifact_def)
  have w: "ConvertedImageCreate_validate (example_artifact\<lparr>ConvertedImageCreate.width := - 1\<rparr>)
     = Inl ValidationError"
    by (simp add: ConvertedImageCreate_validate_def ConvertedImageCreate_constraints_def
          in_range_def example_artifact_def)
  have q: "ConvertedImageCreate_validate
      (example_artifact\<lparr>ConvertedImageCreate.quality_used := Some 0\<rparr>) = Inl ValidationError"
    by (simp add: ConvertedImageCreate_validate_def ConvertedImageCreate_constraints_def
          in_range_def example_artifact_def)
  from ConvertedImage_bounds [of example_artifact example_artifact t0] v w q
  show ?thesis
    by (simp add: example_artifact_def ConvertedImage_new_def Let_def)
qed

text \<open>
  C6, as stated, fails: the \<^verbatim>\<open>ConvertedImage\<close> class takes a width of -1, a height of
  -3, a \<^verbatim>\<open>quality_used\<close> of 0 and a download count of -7, which break the four bounds
  its fields declare, and the table stores the record.
\<close>

theorem ConvertedImage_stores_any_size:
  "ConvertedImage.width unchecked_converted = - 1 \<and>
   ConvertedImage.height unchecked_converted = - 3 \<and>
   ConvertedImage.quality_used unchecked_converted = Some 0 \<and>
   ConvertedImage.download_count unchecked_converted = - 7 \<and>
   \<not> ConvertedImage_constraints unchecked_converted \<and>
   reachable job_store \<and>
   add_ConvertedImage job_store unchecked_converted
     = Inr (job_store\<lparr>converted_images := [unchecked_converted\<lparr>ConvertedImage.id := Some 1\<rparr>]\<rparr>) \<and>
   reachable (job_store\<lparr>converted_images := [unchecked_converted\<lparr>ConvertedImage.id := Some 1\<rparr>]\<rparr>)"
proof -
  have 1: "ConvertedImage.width unchecked_converted = - 1"
    "ConvertedImage.height unchecked_converted = - 3"
    "ConvertedImage.quality_used unchecked_converted = Some 0"
    "ConvertedImage.download_count unchecked_converted = - 7"
    by (simp_all add: unchecked_converted_def ConvertedImage_new_def)
  then have 2: "\<not> ConvertedImage_constraints unchecked_converted"
    by (simp add: ConvertedImage_constraints_def)
  have 3: "add_ConvertedImage job_store unchecked_converted
     = Inr (job_store\<lparr>converted_images := [unchecked_converted\<lparr>ConvertedImage.id := Some 1\<rparr>]\<rparr>)"
    by (simp add: add_ConvertedImage_def primary_key_def next_id_def foreign_key_def
          job_store_def image_store_def empty_store_def unchecked_converted_def
          ConvertedImage_new_def)
  with reachable_job_store
  have 4: "reachable (job_store\<lparr>converted_images := [unchecked_converted\<lparr>ConvertedImage.id := Some 1\<rparr>]\<rparr>)"
    by (rule reachable.add_converted)
  from 1 2 3 4 reachable_job_store show ?thesis by simp
qed

section \<open>Submission\<close>

lemma ConversionRequest_validate_Inr:
  "(\<exists>req. ConversionRequest_validate b = Inr req) =
     (ConversionRequest_body.target_format b
        \<in> {''jpeg'', ''jpg'', ''png'', ''webp'', ''bmp'', ''tiff'', ''gif''} \<and>
      (case ConversionRequest_body.quality b of None \<Rightarrow> True | Some q \<Rightarrow> 1 \<le> q \<and> q \<le> 100) \<and>
      (case ConversionRequest_body.width b of None \<Rightarrow> True | Some w \<Rightarrow> 1 \<le> w) \<and>
      (case ConversionRequest_body.height b of None \<Rightarrow> True | Some h \<Rightarrow> 1 \<le> h))"
proof -
  have f: "(ImageFormat_of_value (ConversionRequest_body.target_format b) \<noteq> None) =
      (ConversionRequest_body.target_format b
        \<in> {''jpeg'', ''jpg'', ''png'', ''webp'', ''bmp'', ''tiff'', ''gif''})"
    by (auto simp: ImageFormat_of_value_def ImageFormat_members_def)
  show ?thesis
    unfolding f [symmetric]
    by (auto simp: ConversionRequest_validate_def in_range_def split: option.splits)
qed

lemma ConversionRequest_validate_source:
  "ConversionRequest_validate b = Inr req \<Longrightarrow>
     ConversionRequest.source_image_id req = ConversionRequest_body.source_image_id b"
  by (auto simp: ConversionRequest_validate_def split: option.splits if_splits)

lemma create_job_pending:
  "create_job s now req = (j, s') \<Longrightarrow>
     ConversionJob.status j = ConversionStatus_value PENDING \<and> ConversionJob.started_at j = None \<and>
     ConversionJob.completed_at j = None \<and> conversion_jobs s' = conversion_jobs s @ [j] \<and>
     ConversionJob.id j = Some (next_id (map ConversionJob.id (conversion_jobs s))) \<and>
     users s' = users s \<and> uploaded_images s' = uploaded_images s \<and>
     converted_images s' = converted_images s"
  by (auto simp: create_job_def ConversionJob_new_def Let_def)

lemma submit_Inr:
  "submit s now body = (Inr j, s') \<Longrightarrow>
     \<exists>req img. ConversionRequest_validate body = Inr req \<and>
       get_image s (ConversionRequest_body.source_image_id body) = Some img \<and>
       \<not> UploadedImage.is_deleted img \<and> create_job s now req = (j, s')"
  by (auto simp: submit_def ConversionRequest_validate_source
        split: sum.splits option.splits if_splits prod.splits)

lemma submit_valid:
  "ConversionRequest_validate body = Inr req \<Longrightarrow>
   get_image s (ConversionRequest_body.source_image_id body) = Some img \<Longrightarrow>
   \<not> UploadedImage.is_deleted img \<Longrightarrow>
     submit s now body = (Inr (fst (create_job s now req)), snd (create_job s now req))"
  by (simp add: submit_def ConversionRequest_validate_source split: prod.splits)

lemma submit_invalid:
  "\<not> (\<exists>req img. ConversionRequest_validate body = Inr req \<and>
       get_image s (ConversionRequest_body.source_image_id body) = Some img \<and>
       \<not> UploadedImage.is_deleted img) \<Longrightarrow>
     submit s now body = (Inl ValidationError, s)"
  by (auto simp: submit_def ConversionRequest_validate_source
        split: sum.splits option.splits if_splits prod.splits)

lemma submit_example:
  "submit image_store t0 example_body = (Inr example_job, pending_store)"
  by (simp add: submit_def ConversionRequest_validate_def ImageFormat_of_value_def
        ImageFormat_members_def in_range_def get_image_def create_job_def Let_def
        next_id_def image_store_def empty_store_def example_body_def example_job_def
        example_image_def ConversionJob_new_def pending_store_def)

text \<open>
  C2: for every valid conversion request (a body that the \<^verbatim>\<open>ConversionRequest\<close> schema
  accepts and whose source image exists and is not deleted) \<^verbatim>\<open>submit\<close> produces a job,
  and every job \<^verbatim>\<open>submit\<close> produces has status PENDING, \<^verbatim>\<open>started_at\<close> and
  \<^verbatim>\<open>completed_at\<close> both \<^verbatim>\<open>None\<close>, and is stored.
\<close>

theorem submit_produces_pending_job:
  "(ConversionRequest_validate body = Inr req \<and>
    get_image s (ConversionRequest.source_image_id req) = Some img \<and>
    \<not> UploadedImage.is_deleted img
      \<longrightarrow> (\<exists>j s'. submit s now body = (Inr j, s'))) \<and>
   (submit s now body = (Inr j, s')
      \<longrightarrow> ConversionJob.status j = ConversionStatus_value PENDING \<and> ConversionJob.started_at j = None \<and>
          ConversionJob.completed_at j = None \<and> get_job s' (next_id (map ConversionJob.id (conversion_jobs s))) \<noteq> None \<and>
          j \<in> set (conversion_jobs s'))"
proof (intro conjI impI)
  assume a: "ConversionRequest_validate body = Inr req \<and>
    get_image s (ConversionRequest.source_image_id req) = Some img \<and>
    \<not> UploadedImage.is_deleted img"
  then have v: "ConversionRequest_validate body = Inr req" by simp
  from a ConversionRequest_validate_source [OF v]
  have "get_image s (ConversionRequest_body.source_image_id body) = Some img"
    by simp
  from submit_valid [OF v this] a show "\<exists>j s'. submit s now body = (Inr j, s')"
    by blast
next
  assume "submit s now body = (Inr j, s')"
  then obtain req where c: "create_job s now req = (j, s')"
    by (auto dest: submit_Inr)
  from create_job_pending [OF c]
  show "ConversionJob.status j = ConversionStatus_value PENDING" "ConversionJob.started_at j = None"
    "ConversionJob.completed_at j = None" "j \<in> set (conversion_jobs s')"
    by simp_all
  from create_job_pending [OF c]
  show "get_job s' (next_id (map ConversionJob.id (conversion_jobs s))) \<noteq> None"
    by (auto simp: get_job_def find_None_iff)
qed

theorem submit_produces_pending_job_witness:
  "ConversionRequest_validate example_body = Inr example_request \<and>
   get_image image_store (ConversionRequest.source_image_id example_request)
     = Some (example_image\<lparr>UploadedImage.id := Some 1\<rparr>) \<and>
   \<not> UploadedImage.is_deleted (example_image\<lparr>UploadedImage.id := Some 1\<rparr>) \<and>
   submit image_store t0 example_body = (Inr example_job, pending_store) \<and>
   ConversionJob.status example_job = ConversionStatus_value PENDING \<and>
   ConversionJob.started_at example_job = None \<and>
   ConversionJob.completed_at example_job = None \<and>
   example_job \<in> set (conversion_jobs pending_store)"
proof -
  have v: "ConversionRequest_validate example_body = Inr example_request"
    by (simp add: ConversionRequest_validate_def ImageFormat_of_value_def
          ImageFormat_members_def in_range_def example_body_def example_request_def)
  have g: "get_image image_store (ConversionRequest.source_image_id example_request)
     = Some (example_image\<lparr>UploadedImage.id := Some 1\<rparr>)"
    by (simp add: get_image_def image_store_def example_request_def)
  have d: "\<not> UploadedImage.is_deleted (example_image\<lparr>UploadedImage.id := Some 1\<rparr>)"
    by (simp add: example_image_def)
  from submit_produces_pending_job
         [of example_body example_request image_store
            "example_image\<lparr>UploadedImage.id := Some 1\<rparr>" t0 example_job pending_store]
    v g d submit_example
  show ?thesis by simp
qed

text \<open>
  C3: \<^verbatim>\<open>submit\<close> accepts a request, storing one new job, if and only if the source
  image exists and is not deleted, the target format is one of the seven supported
  formats, the quality (when present) is in [1,100], and the width and the height (when
  present) are at least 1; otherwise it fails with \<^verbatim>\<open>ValidationError\<close> and leaves the
  store as it was.
\<close>

theorem submit_accepts_iff_valid:
  "(if (\<exists>img. get_image s (ConversionRequest_body.source_image_id body) = Some img \<and>
             \<not> UploadedImage.is_deleted img) \<and>
       ConversionRequest_body.target_format body
         \<in> {''jpeg'', ''jpg'', ''png'', ''webp'', ''bmp'', ''tiff'', ''gif''} \<and>
       (case ConversionRequest_body.quality body of None \<Rightarrow> True | Some q \<Rightarrow> 1 \<le> q \<and> q \<le> 100) \<and>
       (case ConversionRequest_body.width body of None \<Rightarrow> True | Some w \<Rightarrow> 1 \<le> w) \<and>
       (case ConversionRequest_body.height body of None \<Rightarrow> True | Some h \<Rightarrow> 1 \<le> h)
    then \<exists>j. submit s now body = (Inr j, s\<lparr>conversion_jobs := conversion_jobs s @ [j]\<rparr>)
    else submit s now body = (Inl ValidationError, s))"
proof (cases "\<exists>req. ConversionRequest_validate body = Inr req")
  case False
  then have "submit s now body = (Inl ValidationError, s)"
    by (intro submit_invalid) blast
  with False show ?thesis
    unfolding ConversionRequest_validate_Inr by auto
next
  case True
  then obtain req where v: "ConversionRequest_validate body = Inr req" by blast
  show ?thesis
  proof (cases "\<exists>img. get_image s (ConversionRequest_body.source_image_id body) = Some img \<and>
             \<not> UploadedImage.is_deleted img")
    case False
    then have "submit s now body = (Inl ValidationError, s)"
      by (intro submit_invalid) blast
    with False show ?thesis by simp
  next
    case img: True
    then obtain img where i: "get_image s (ConversionRequest_body.source_image_id body) = Some img"
      "\<not> UploadedImage.is_deleted img" by blast
    obtain j s' where c: "create_job s now req = (j, s')" by (cases "create_job s now req")
    from submit_valid [OF v i] c have "submit s now body = (Inr j, s')" by simp
    moreover from create_job_pending [OF c]
    have "s' = s\<lparr>conversion_jobs := conversion_jobs s @ [j]\<rparr>" by simp
    ultimately have "\<exists>j. submit s now body = (Inr j, s\<lparr>conversion_jobs := conversion_jobs s @ [j]\<rparr>)"
      by blast
    with img True show ?thesis
      unfolding ConversionRequest_validate_Inr by simp
  qed
qed

theorem submit_accepts_iff_valid_witness:
  "(\<exists>j. submit image_store t0 example_body =
          (Inr j, image_store\<lparr>conversion_jobs := conversion_jobs image_store @ [j]\<rparr>)) \<and>
   submit image_store t0 (example_body\<lparr>ConversionRequest_body.quality := Some 0\<rparr>)
     = (Inl ValidationError, image_store) \<and>
   submit image_store t0 (example_body\<lparr>ConversionRequest_body.target_format := ''svg''\<rparr>)
     = (Inl ValidationError, image_store) \<and>
   submit image_store t0 (example_body\<lparr>ConversionRequest_body.source_image_id := 2\<rparr>)
     = (Inl ValidationError, image_store) \<and>
   submit (image_store\<lparr>uploaded_images :=
              [example_image\<lparr>UploadedImage.id := Some 1, UploadedImage.is_deleted := True\<rparr>]\<rparr>)
       t0 example_body
     = (Inl ValidationError,
        image_store\<lparr>uploaded_images :=
              [example_image\<lparr>UploadedImage.id := Some 1, UploadedImage.is_deleted := True\<rparr>]\<rparr>)"
  using submit_accepts_iff_valid [of image_store example_body t0]
    submit_accepts_iff_valid
      [of image_store "example_body\<lparr>ConversionRequest_body.quality := Some 0\<rparr>" t0]
    submit_accepts_iff_valid
      [of image_store "example_body\<lparr>ConversionRequest_body.target_format := ''svg''\<rparr>" t0]
    submit_accepts_iff_valid
      [of image_store "example_body\<lparr>ConversionRequest_body.source_image_id := 2\<rparr>" t0]
    submit_accepts_iff_valid
      [of "image_store\<lparr>uploaded_images :=
              [example_image\<lparr>UploadedImage.id := Some 1, UploadedImage.is_deleted := True\<rparr>]\<rparr>"
          example_body t0]
  by (simp add: get_image_def image_store_def empty_store_def example_body_def
        example_image_def)

section \<open>The claim is exclusive\<close>


lemma get_job_update_job:
  assumes "get_job s i = Some j" and "ConversionJob.id (f j) = ConversionJob.id j"
  shows "get_job (update_job s i f) i = Some (f j)"
proof -
  have "find (\<lambda>j. ConversionJob.id j = Some i) xs = Some j \<Longrightarrow>
        find (\<lambda>j. ConversionJob.id j = Some i)
          (map (\<lambda>j. if ConversionJob.id j = Some i then f j else j) xs) = Some (f j)" for xs
  proof (induction xs)
    case Nil
    then show ?case by simp
  next
    case (Cons x xs)
    show ?case
    proof (cases "ConversionJob.id x = Some i")
      case True
      with Cons.prems have "x = j" by simp
      with True assms(2) show ?thesis by simp
    next
      case False
      with Cons show ?thesis by simp
    qed
  qed
  with assms(1) show ?thesis
    by (simp add: get_job_def update_job_def)
qed

lemma claim_pending:
  "get_job s i = Some j \<Longrightarrow> ConversionJob.status j = ConversionStatus_value PENDING \<Longrightarrow>
     claim s now i =
       Inr (update_job s i (\<lambda>j. j\<lparr>ConversionJob.status := ConversionStatus_value PROCESSING,
                                   ConversionJob.started_at := Some now\<rparr>))"
  by (simp add: claim_def)

lemma claim_not_pending:
  "get_job s i = Some j \<Longrightarrow> ConversionJob.status j \<noteq> ConversionStatus_value PENDING \<Longrightarrow>
     claim s now i = Inl ConflictError"
  by (simp add: claim_def)

lemma claims_not_pending:
  "get_job s i = Some j \<Longrightarrow> ConversionJob.status j \<noteq> ConversionStatus_value PENDING \<Longrightarrow>
     claims s i ts = (map (\<lambda>t. Some ConflictError) ts, s)"
  by (induction ts) (simp_all add: claim_not_pending)

lemma claims_pending:
  assumes "get_job s i = Some j" and "ConversionJob.status j = ConversionStatus_value PENDING"
  shows "claims s i (now # rest) =
           (None # map (\<lambda>t. Some ConflictError) rest,
            update_job s i (\<lambda>j. j\<lparr>ConversionJob.status := ConversionStatus_value PROCESSING,
                                     ConversionJob.started_at := Some now\<rparr>))"
proof -
  let ?f = "\<lambda>j. j\<lparr>ConversionJob.status := ConversionStatus_value PROCESSING, ConversionJob.started_at := Some now\<rparr>"
  have "get_job (update_job s i ?f) i = Some (?f j)"
    using assms(1) by (rule get_job_update_job) simp
  moreover have "ConversionJob.status (?f j) \<noteq> ConversionStatus_value PENDING" by simp
  ultimately have "claims (update_job s i ?f) i rest =
      (map (\<lambda>t. Some ConflictError) rest, update_job s i ?f)"
    by (rule claims_not_pending)
  with assms show ?thesis
    by (simp add: claim_pending)
qed

lemma find_append_first:
  "find P xs = Some x \<Longrightarrow> find P (xs @ ys) = Some x"
  by (induction xs) (auto split: if_splits)

lemma get_job_update_job_other:
  assumes "\<And>j. ConversionJob.id (f j) = ConversionJob.id j" and "i' \<noteq> i"
  shows "get_job (update_job s i' f) i = get_job s i"
proof -
  have "find (\<lambda>j. ConversionJob.id j = Some i)
          (map (\<lambda>j. if ConversionJob.id j = Some i' then f j else j) xs)
        = find (\<lambda>j. ConversionJob.id j = Some i) xs" for xs
    using assms by (induction xs) auto
  then show ?thesis by (simp add: get_job_def update_job_def)
qed

lemma claimed_update_job:
  assumes c: "claimed s i" and id: "\<And>j. ConversionJob.id (f j) = ConversionJob.id j"
    and st: "\<And>j. ConversionJob.status (f j) \<noteq> ConversionStatus_value PENDING"
  shows "claimed (update_job s i' f) i"
proof (cases "i' = i")
  case True
  from c obtain j where j: "get_job s i = Some j"
    by (auto simp: claimed_def split: option.splits)
  from j id have "get_job (update_job s i f) i = Some (f j)"
    by (rule get_job_update_job)
  with True st show ?thesis by (simp add: claimed_def)
next
  case False
  with id have "get_job (update_job s i' f) i = get_job s i"
    by (rule get_job_update_job_other)
  with c show ?thesis by (simp add: claimed_def)
qed

lemma claimed_create_converted_image:
  "claimed (create_converted_image s now a) i = claimed s i"
  by (simp add: claimed_def get_job_def create_converted_image_def Let_def)

lemma claimed_submit:
  assumes "claimed s i" and "submit s now body = (r, s')"
  shows "claimed s' i"
proof (cases r)
  case (Inl e)
  with assms(2) have "s' = s"
    by (auto simp: submit_def split: sum.splits option.splits if_splits prod.splits)
  with assms(1) show ?thesis by simp
next
  case (Inr j)
  with assms(2) obtain req where "create_job s now req = (j, s')"
    by (auto dest: submit_Inr)
  then have jobs: "conversion_jobs s' = conversion_jobs s @ [j]"
    by (simp add: create_job_pending)
  from assms(1) obtain j0 where g: "get_job s i = Some j0" "ConversionJob.status j0 \<noteq> ConversionStatus_value PENDING"
    by (auto simp: claimed_def split: option.splits)
  from g(1) have "get_job s' i = Some j0"
    unfolding get_job_def jobs by (rule find_append_first)
  with g(2) show ?thesis by (simp add: claimed_def)
qed

lemma claimed_claim:
  assumes "claimed s i" and "claim s now i' = Inr s'"
  shows "claimed s' i"
proof -
  from assms(2) have "s' = update_job s i'
      (\<lambda>j. j\<lparr>ConversionJob.status := ConversionStatus_value PROCESSING, ConversionJob.started_at := Some now\<rparr>)"
    by (auto simp: claim_def split: option.splits if_splits)
  with assms(1) show ?thesis by (simp add: claimed_update_job)
qed

lemma claimed_succeed:
  assumes "claimed s i" and "succeed s now i' artifact = Inr s'"
  shows "claimed s' i"
proof -
  from assms(2) have "s' = create_converted_image (update_job s i'
      (\<lambda>j. j\<lparr>ConversionJob.status := ConversionStatus_value COMPLETED, ConversionJob.completed_at := Some now,
              ConversionJob.processing_time_seconds := processing_time j now\<rparr>))
      now (artifact\<lparr>ConvertedImageCreate.conversion_job_id := i'\<rparr>)"
    by (auto simp: succeed_def split: option.splits if_splits)
  with assms(1) show ?thesis
    by (simp add: claimed_create_converted_image claimed_update_job)
qed

lemma claimed_fail:
  assumes "claimed s i" and "fail s now i' err = Inr s'"
  shows "claimed s' i"
proof -
  from assms(2) have "s' = update_job s i'
      (\<lambda>j. j\<lparr>ConversionJob.status := ConversionStatus_value FAILED, ConversionJob.completed_at := Some now,
              ConversionJob.error_message := Some err,
              ConversionJob.processing_time_seconds := processing_time j now\<rparr>)"
    by (auto simp: fail_def split: option.splits if_splits)
  with assms(1) show ?thesis by (simp add: claimed_update_job)
qed

lemma claimed_cancel:
  assumes "claimed s i" and "cancel s now i' = Inr s'"
  shows "claimed s' i"
proof -
  from assms(2) have "s' = update_job s i'
      (\<lambda>j. j\<lparr>ConversionJob.status := ConversionStatus_value FAILED, ConversionJob.completed_at := Some now,
              ConversionJob.error_message := Some ''cancelled'',
              ConversionJob.processing_time_seconds := processing_time j now\<rparr>)"
    by (auto simp: cancel_def split: option.splits if_splits)
  with assms(1) show ?thesis by (simp add: claimed_update_job)
qed

lemma claimed_evolves: "evolves s s' \<Longrightarrow> claimed s i \<Longrightarrow> claimed s' i"
proof (induction rule: evolves.induct)
  case (same s)
  then show ?case by simp
qed (blast intro: claimed_submit claimed_claim claimed_succeed claimed_fail claimed_cancel)+

lemma claimed_conflict: "claimed s i \<Longrightarrow> claim s now i = Inl ConflictError"
  by (auto simp: claimed_def claim_def split: option.splits)

text \<open>
  C4: \<^verbatim>\<open>claim()\<close> is exclusive. When any number of callers (at least one) race for a
  PENDING job, in whichever order the store serialises their atomic claims, exactly one
  of them, the first, moves the job to PROCESSING with its \<^verbatim>\<open>started_at\<close>, and every
  other caller is given \<^verbatim>\<open>ConflictError\<close>, the skip signal. Whatever the engine does
  afterwards, to this job or to others, a later \<^verbatim>\<open>claim()\<close> of the job is given
  \<^verbatim>\<open>ConflictError\<close> too: the job is claimed, and so processed, at most once.
\<close>

theorem claim_is_exclusive:
  "get_job s i = Some j \<Longrightarrow> ConversionJob.status j = ConversionStatus_value PENDING \<Longrightarrow> callers \<noteq> [] \<Longrightarrow>
     (\<exists>s' j'. claims s i callers = (None # map (\<lambda>t. Some ConflictError) (tl callers), s') \<and>
        get_job s' i = Some j' \<and> ConversionJob.status j' = ConversionStatus_value PROCESSING \<and>
        ConversionJob.started_at j' = Some (hd callers)) \<and>
     length (filter (\<lambda>r. r = None) (fst (claims s i callers))) = 1 \<and>
     length (filter (\<lambda>r. r = Some ConflictError) (fst (claims s i callers))) = length callers - 1 \<and>
     (\<forall>s'' t. evolves (snd (claims s i callers)) s'' \<longrightarrow> claim s'' t i = Inl ConflictError)"
proof -
  assume g: "get_job s i = Some j" and p: "ConversionJob.status j = ConversionStatus_value PENDING"
    and n: "callers \<noteq> []"
  from n obtain now rest where c: "callers = now # rest" by (cases callers) auto
  let ?f = "\<lambda>j. j\<lparr>ConversionJob.status := ConversionStatus_value PROCESSING, ConversionJob.started_at := Some now\<rparr>"
  have e: "claims s i callers =
      (None # map (\<lambda>t. Some ConflictError) rest, update_job s i ?f)"
    unfolding c using g p by (rule claims_pending)
  have u: "get_job (update_job s i ?f) i = Some (?f j)"
    using g by (rule get_job_update_job) simp
  have 1: "\<exists>s' j'. claims s i callers = (None # map (\<lambda>t. Some ConflictError) (tl callers), s') \<and>
        get_job s' i = Some j' \<and> ConversionJob.status j' = ConversionStatus_value PROCESSING \<and>
        ConversionJob.started_at j' = Some (hd callers)"
    using e u c by simp
  have 2: "length (filter (\<lambda>r. r = None) (fst (claims s i callers))) = 1"
    unfolding e by (simp add: filter_map comp_def)
  have 3: "length (filter (\<lambda>r. r = Some ConflictError) (fst (claims s i callers)))
             = length callers - 1"
    unfolding e by (simp add: c filter_map comp_def)
  have 4: "\<forall>s'' t. evolves (snd (claims s i callers)) s'' \<longrightarrow> claim s'' t i = Inl ConflictError"
  proof (intro allI impI)
    fix s'' t assume ev: "evolves (snd (claims s i callers)) s''"
    have "claimed (update_job s i ?f) i"
      using u by (simp add: claimed_def)
    with e have "claimed (snd (claims s i callers)) i" by simp
    with ev have "claimed s'' i" by (rule claimed_evolves)
    then show "claim s'' t i = Inl ConflictError" by (rule claimed_conflict)
  qed
  from 1 2 3 4 show ?thesis by blast
qed

lemma get_job_pending_store: "get_job pending_store 1 = Some example_job"
  by (simp add: get_job_def pending_store_def example_job_def)

theorem claim_is_exclusive_witness:
  "get_job pending_store 1 = Some example_job \<and>
   ConversionJob.status example_job = ConversionStatus_value PENDING \<and>
   (\<exists>s' j'. claims pending_store 1 [t1, t0, t0]
              = ([None, Some ConflictError, Some ConflictError], s') \<and>
      get_job s' 1 = Some j' \<and> ConversionJob.status j' = ConversionStatus_value PROCESSING \<and>
      ConversionJob.started_at j' = Some t1) \<and>
   length (filter (\<lambda>r. r = None) (fst (claims pending_store 1 [t1, t0, t0]))) = 1 \<and>
   evolves (snd (claims pending_store 1 [t1, t0, t0])) (snd (claims pending_store 1 [t1, t0, t0])) \<and>
   claim (snd (claims pending_store 1 [t1, t0, t0])) t0 1 = Inl ConflictError"
proof -
  have p: "ConversionJob.status example_job = ConversionStatus_value PENDING"
    by (simp add: example_job_def ConversionJob_new_def)
  have n: "[t1, t0, t0] \<noteq> []" by simp
  note th = claim_is_exclusive [OF get_job_pending_store p n]
  have ev: "evolves (snd (claims pending_store 1 [t1, t0, t0]))
              (snd (claims pending_store 1 [t1, t0, t0]))"
    by (rule evolves.same)
  with th have c: "claim (snd (claims pending_store 1 [t1, t0, t0])) t0 1 = Inl ConflictError"
    by blast
  from th get_job_pending_store p ev c show ?thesis by simp
qed

section \<open>The invariant of a job\<close>

















section \<open>Further properties of the schemas\<close>

text \<open>
  X1: the \<^verbatim>\<open>ConversionRequest\<close> schema accepts a body if and only if its target format
  is the value of one of the seven formats, its quality (when present) is in [1,100],
  and its width and height (when present) are at least 1; the request it builds keeps
  the body's fields, with \<^verbatim>\<open>maintain_aspect_ratio\<close> true when the body omits it.
\<close>

theorem ConversionRequest_accepts_iff:
  "((\<exists>req. ConversionRequest_validate b = Inr req) =
      (ConversionRequest_body.target_format b
         \<in> {''jpeg'', ''jpg'', ''png'', ''webp'', ''bmp'', ''tiff'', ''gif''} \<and>
       (case ConversionRequest_body.quality b of None \<Rightarrow> True | Some q \<Rightarrow> 1 \<le> q \<and> q \<le> 100) \<and>
       (case ConversionRequest_body.width b of None \<Rightarrow> True | Some w \<Rightarrow> 1 \<le> w) \<and>
       (case ConversionRequest_body.height b of None \<Rightarrow> True | Some h \<Rightarrow> 1 \<le> h))) \<and>
   (ConversionRequest_validate b = Inr req \<longrightarrow>
      ConversionRequest.source_image_id req = ConversionRequest_body.source_image_id b \<and>
      ImageFormat_value (ConversionRequest.target_format req)
        = ConversionRequest_body.target_format b \<and>
      ConversionRequest.user_id req = ConversionRequest_body.user_id b \<and>
      ConversionRequest.quality req = ConversionRequest_body.quality b \<and>
      ConversionRequest.width req = ConversionRequest_body.width b \<and>
      ConversionRequest.height req = ConversionRequest_body.height b \<and>
      ConversionRequest.maintain_aspect_ratio req
        = (ConversionRequest_body.maintain_aspect_ratio b \<noteq> Some False)) \<and>
   (\<forall>e. ConversionRequest_validate b = Inl e \<longrightarrow> e = ValidationError)"
proof (intro conjI impI allI)
  show "(\<exists>req. ConversionRequest_validate b = Inr req) =
      (ConversionRequest_body.target_format b
         \<in> {''jpeg'', ''jpg'', ''png'', ''webp'', ''bmp'', ''tiff'', ''gif''} \<and>
       (case ConversionRequest_body.quality b of None \<Rightarrow> True | Some q \<Rightarrow> 1 \<le> q \<and> q \<le> 100) \<and>
       (case ConversionRequest_body.width b of None \<Rightarrow> True | Some w \<Rightarrow> 1 \<le> w) \<and>
       (case ConversionRequest_body.height b of None \<Rightarrow> True | Some h \<Rightarrow> 1 \<le> h))"
    by (rule ConversionRequest_validate_Inr)
next
  fix e assume "ConversionRequest_validate b = Inl e"
  then show "e = ValidationError"
    by (auto simp: ConversionRequest_validate_def split: option.splits if_splits)
next
  assume v: "ConversionRequest_validate b = Inr req"
  then obtain fmt where f: "ImageFormat_of_value (ConversionRequest_body.target_format b) = Some fmt"
    by (auto simp: ConversionRequest_validate_def split: option.splits)
  then have fv: "ImageFormat_value fmt = ConversionRequest_body.target_format b"
    by (auto simp: ImageFormat_of_value_def find_Some_iff)
  from v f have r: "req =
      \<lparr>ConversionRequest.source_image_id = ConversionRequest_body.source_image_id b,
       ConversionRequest.target_format = fmt,
       ConversionRequest.user_id = ConversionRequest_body.user_id b,
       ConversionRequest.quality = ConversionRequest_body.quality b,
       ConversionRequest.width = ConversionRequest_body.width b,
       ConversionRequest.height = ConversionRequest_body.height b,
       ConversionRequest.maintain_aspect_ratio =
         (case ConversionRequest_body.maintain_aspect_ratio b of None \<Rightarrow> True | Some m \<Rightarrow> m)\<rparr>"
    by (auto simp: ConversionRequest_validate_def split: if_splits)
  show "ConversionRequest.source_image_id req = ConversionRequest_body.source_image_id b"
    "ImageFormat_value (ConversionRequest.target_format req) = ConversionRequest_body.target_format b"
    "ConversionRequest.user_id req = ConversionRequest_body.user_id b"
    "ConversionRequest.quality req = ConversionRequest_body.quality b"
    "ConversionRequest.width req = ConversionRequest_body.width b"
    "ConversionRequest.height req = ConversionRequest_body.height b"
    "ConversionRequest.maintain_aspect_ratio req
        = (ConversionRequest_body.maintain_aspect_ratio b \<noteq> Some False)"
    using fv by (auto simp: r split: option.splits)
qed

theorem ConversionRequest_accepts_iff_witness:
  "ConversionRequest_validate example_body = Inr example_request \<and>
   ConversionRequest.maintain_aspect_ratio example_request \<and>
   ConversionRequest_validate (example_body\<lparr>ConversionRequest_body.quality := Some 101\<rparr>)
     = Inl ValidationError \<and>
   ConversionRequest_validate (example_body\<lparr>ConversionRequest_body.width := Some 0\<rparr>)
     = Inl ValidationError"
proof -
  have v: "ConversionRequest_validate example_body = Inr example_request"
    by (simp add: ConversionRequest_validate_def ImageFormat_of_value_def
          ImageFormat_members_def in_range_def example_body_def example_request_def)
  have q: "ConversionRequest_validate (example_body\<lparr>ConversionRequest_body.quality := Some 101\<rparr>)
     = Inl ValidationError"
    by (simp add: ConversionRequest_validate_def ImageFormat_of_value_def
          ImageFormat_members_def in_range_def example_body_def)
  have w: "ConversionRequest_validate (example_body\<lparr>ConversionRequest_body.width := Some 0\<rparr>)
     = Inl ValidationError"
    by (simp add: ConversionRequest_validate_def ImageFormat_of_value_def
          ImageFormat_members_def in_range_def example_body_def)
  from ConversionRequest_accepts_iff [of example_body example_request] v q w
  show ?thesis by (simp add: example_body_def)
qed

text \<open>
  X2: a \<^verbatim>\<open>ConversionJob\<close> constructed from its required fields alone takes the declared
  defaults: no id, no user, status PENDING, no quality, width or height,
  \<^verbatim>\<open>maintain_aspect_ratio\<close> true, \<^verbatim>\<open>created_at\<close> the time of construction, and
  \<^verbatim>\<open>started_at\<close>, \<^verbatim>\<open>completed_at\<close>, \<^verbatim>\<open>error_message\<close> and
  \<^verbatim>\<open>processing_time_seconds\<close> all \<^verbatim>\<open>None\<close>; and it satisfies the field constraints.
\<close>

theorem ConversionJob_defaults:
  "ConversionJob.id (ConversionJob_new now src fmt) = None \<and>
   ConversionJob.user_id (ConversionJob_new now src fmt) = None \<and>
   ConversionJob.source_image_id (ConversionJob_new now src fmt) = src \<and>
   ConversionJob.target_format (ConversionJob_new now src fmt) = fmt \<and>
   ConversionJob.status (ConversionJob_new now src fmt) = ConversionStatus_value PENDING \<and>
   ConversionJob.quality (ConversionJob_new now src fmt) = None \<and>
   ConversionJob.width (ConversionJob_new now src fmt) = None \<and>
   ConversionJob.height (ConversionJob_new now src fmt) = None \<and>
   ConversionJob.maintain_aspect_ratio (ConversionJob_new now src fmt) \<and>
   ConversionJob.created_at (ConversionJob_new now src fmt) = now \<and>
   ConversionJob.started_at (ConversionJob_new now src fmt) = None \<and>
   ConversionJob.completed_at (ConversionJob_new now src fmt) = None \<and>
   ConversionJob.error_message (ConversionJob_new now src fmt) = None \<and>
   ConversionJob.processing_time_seconds (ConversionJob_new now src fmt) = None \<and>
   ConversionJob_constraints (ConversionJob_new now src fmt)"
  by (simp add: ConversionJob_new_def ConversionJob_constraints_def in_range_def)

theorem ConversionJob_defaults_witness:
  "ConversionJob.status (ConversionJob_new t0 1 WEBP) = ConversionStatus_value PENDING \<and>
   ConversionJob.started_at (ConversionJob_new t0 1 WEBP) = None \<and>
   ConversionJob.created_at (ConversionJob_new t0 1 WEBP) = t0"
  using ConversionJob_defaults [of t0 1 WEBP] by simp

end
